theory Spec2Isabelle
  imports Main
begin

section \<open>Realtime connection manager of the trading client (services/websocket.ts)\<close>

text \<open>
  The theory embeds the class \<open>WebSocketService\<close> and the module-level singleton
  functions around it. The service is event driven: every handler runs to completion on
  one event, so the embedding is a deterministic step function on a world that holds the
  service instances, the browser's sockets, the pending timers and a trace of the
  observable effects (console output, toasts, callback invocations, settled promises).
\<close>

subsection \<open>Values received from the wire\<close>

text \<open>
  The parsed form of an inbound frame. \<open>'n\<close> is the platform's number type (IEEE doubles
  in the browser); the code only tests numbers for truthiness and formats them, and both
  operations are taken from the platform record below. A JavaScript value that may be
  \<open>undefined\<close> is a \<open>json option\<close> with \<open>None\<close> for \<open>undefined\<close>.
\<close>

datatype 'n json =
    JNull
  | JBool bool
  | JNum 'n
  | JStr string
  | JArr "'n json list"
  | JObj "(string \<times> 'n json) list"

datatype outcome = Returns | Throws

record 'n platform =
  json_parse :: "string \<Rightarrow> 'n json option"
  json_stringify :: "'n json \<Rightarrow> string option"
  num_truthy :: "'n \<Rightarrow> bool"
  num_toLocaleString :: "'n \<Rightarrow> string"
  list_separator :: string
  url_accepted :: "string \<Rightarrow> bool"

subsection \<open>Callbacks, effects, sockets, service instances\<close>

datatype cbkind =
    OnBalanceUpdate
  | OnTransactionNotification
  | OnBotStatusUpdate
  | OnSystemNotification
  | OnError
  | OnConnectionEstablished
  | OnDisconnect

text \<open>
  A registered callback is caller code; the model keeps of it whether it returns or
  throws on a given argument. What the callback does to the caller's own state is outside
  the service.
\<close>

record 'n callbacks =
  onBalanceUpdate :: "('n json option \<Rightarrow> outcome) option"
  onTransactionNotification :: "('n json option \<Rightarrow> outcome) option"
  onBotStatusUpdate :: "('n json option \<Rightarrow> outcome) option"
  onSystemNotification :: "('n json option \<Rightarrow> outcome) option"
  onError :: "('n json option \<Rightarrow> outcome) option"
  onConnectionEstablished :: "('n json option \<Rightarrow> outcome) option"
  onDisconnect :: "outcome option"

definition no_callbacks :: "'n callbacks" where
  "no_callbacks =
     \<lparr> onBalanceUpdate = None, onTransactionNotification = None, onBotStatusUpdate = None,
       onSystemNotification = None, onError = None, onConnectionEstablished = None,
       onDisconnect = None \<rparr>"

datatype level = Log | Warn | Error
datatype toast_kind = TSuccess | TError | TPlain
datatype settled = Fulfilled | Rejected

text \<open>
  Console output is recorded by level and message text (object arguments of
  \<open>console.log\<close> are not rendered). \<open>ConnectSettled sid r\<close> records that a promise returned
  by \<open>connect()\<close> of instance \<open>sid\<close> settled with \<open>r\<close>.
\<close>

datatype icon = MoneyBag | MoneyWithWings | WarningSign

datatype 'n effect =
    Console level string
  | Toast toast_kind "'n json" "icon option"
  | Invoke cbkind "'n json option"
  | ConnectSettled nat settled
  | Uncaught

datatype topic = Wallet | Bots | Notifications
datatype readyState = CONNECTING | OPEN | CLOSING | CLOSED

text \<open>
  A browser socket together with what its four handlers close over: the instance that
  created it (\<open>this\<close>), the topic (which of \<open>connectWallet\<close>, \<open>connectBots\<close>,
  \<open>connectNotifications\<close> installed the handlers) and the promise of that call, which is
  pending until the first \<open>resolve\<close> or \<open>reject\<close>.
\<close>

record socket =
  owner :: nat
  topic :: topic
  url :: string
  readyState :: readyState
  pending :: bool
  sent :: "string list"

record 'n service =
  walletSocket :: "nat option"
  botsSocket :: "nat option"
  notificationsSocket :: "nat option"
  reconnectAttempts :: nat
  maxReconnectAttempts :: nat
  reconnectDelay :: nat
  callbacks :: "'n callbacks"
  isConnecting :: bool
  baseUrl :: string
  authToken :: string
  userId :: string

text \<open>
  \<open>services\<close> and \<open>sockets\<close> are the heaps of instances and of sockets, addressed by
  position. \<open>timers\<close> holds the pending \<open>setTimeout\<close> entries of \<open>scheduleReconnect\<close>: the
  instance whose \<open>connect()\<close> the timer calls, and the delay in milliseconds.
  \<open>websocketService\<close> is the module-level singleton variable.
\<close>

record 'n world =
  services :: "'n service list"
  sockets :: "socket list"
  timers :: "(nat \<times> nat) list"
  websocketService :: "nat option"
  trace :: "'n effect list"

definition init_world :: "'n world" where
  "init_world = \<lparr> services = [], sockets = [], timers = [], websocketService = None, trace = [] \<rparr>"

definition emit :: "'n effect list \<Rightarrow> 'n world \<Rightarrow> 'n world" where
  "emit es w = w\<lparr> trace := trace w @ es \<rparr>"

definition upd_service :: "nat \<Rightarrow> ('n service \<Rightarrow> 'n service) \<Rightarrow> 'n world \<Rightarrow> 'n world" where
  "upd_service sid f w = w\<lparr> services := (services w)[sid := f (services w ! sid)] \<rparr>"

definition upd_socket :: "nat \<Rightarrow> (socket \<Rightarrow> socket) \<Rightarrow> 'n world \<Rightarrow> 'n world" where
  "upd_socket i f w = w\<lparr> sockets := (sockets w)[i := f (sockets w ! i)] \<rparr>"

subsection \<open>Decimal rendering of the numbers interpolated into log lines\<close>

definition digit_char :: "nat \<Rightarrow> char" where
  "digit_char d =
     (if d = 0 then CHR ''0'' else if d = 1 then CHR ''1'' else if d = 2 then CHR ''2''
      else if d = 3 then CHR ''3'' else if d = 4 then CHR ''4'' else if d = 5 then CHR ''5''
      else if d = 6 then CHR ''6'' else if d = 7 then CHR ''7'' else if d = 8 then CHR ''8''
      else CHR ''9'')"

function show_nat :: "nat \<Rightarrow> string" where
  "show_nat n = (if n < 10 then [digit_char n] else show_nat (n div 10) @ [digit_char (n mod 10)])"
  by pat_completeness auto
termination
  by (relation "measure id") auto

declare show_nat.simps [simp del]

subsection \<open>scheduleReconnect\<close>

definition scheduleReconnect :: "nat \<Rightarrow> 'n world \<Rightarrow> 'n world" where
  "scheduleReconnect sid w =
     (let s = services w ! sid in
      if reconnectAttempts s < maxReconnectAttempts s then
        let n = reconnectAttempts s + 1;
            delay = reconnectDelay s * 2 ^ (n - 1);
            w1 = upd_service sid (\<lambda>s. s\<lparr> reconnectAttempts := n \<rparr>) w;
            w2 = emit [Console Log (''Scheduling WebSocket reconnect in '' @ show_nat delay
                         @ ''ms (attempt '' @ show_nat n @ '')'')] w1
        in w2\<lparr> timers := timers w2 @ [(sid, delay)] \<rparr>
      else
        emit [Console Error ''Max WebSocket reconnection attempts reached'',
              Toast TError (JStr ''Connection lost. Please refresh the page.'') None] w)"

subsection \<open>handleMessage\<close>

fun starts_with :: "'a list \<Rightarrow> 'a list \<Rightarrow> bool" where
  "starts_with xs [] = True"
| "starts_with [] (p # ps) = False"
| "starts_with (x # xs) (p # ps) = (x = p \<and> starts_with xs ps)"

text \<open>\<open>String.prototype.includes\<close>: the pattern occurs as a contiguous substring.\<close>

fun str_includes :: "'a list \<Rightarrow> 'a list \<Rightarrow> bool" where
  "str_includes [] pat = starts_with [] pat"
| "str_includes (c # cs) pat = (starts_with (c # cs) pat \<or> str_includes cs pat)"

text \<open>
  Truthiness of a JavaScript value: \<open>undefined\<close>, \<open>null\<close>, \<open>false\<close>, the empty string and
  the numbers the platform counts as falsy (zero) are falsy, all else is truthy.
\<close>

fun truthy :: "'n platform \<Rightarrow> 'n json option \<Rightarrow> bool" where
  "truthy pf None = False"
| "truthy pf (Some JNull) = False"
| "truthy pf (Some (JBool b)) = b"
| "truthy pf (Some (JNum n)) = num_truthy pf n"
| "truthy pf (Some (JStr s)) = (s \<noteq> [])"
| "truthy pf (Some (JArr xs)) = True"
| "truthy pf (Some (JObj kvs)) = True"

text \<open>
  Reading a property \<open>v.k\<close> for the data keys the code reads (\<open>type\<close>, \<open>data\<close>,
  \<open>transaction\<close>, \<open>transaction_type\<close>, \<open>amount\<close>, \<open>message\<close>, \<open>level\<close>, \<open>error\<close>): on
  \<open>undefined\<close> and \<open>null\<close> it throws a TypeError (outer \<open>None\<close>); an object yields its
  property or \<open>undefined\<close>; strings, numbers, booleans and arrays have none of these keys.
\<close>

fun get_prop :: "'n json option \<Rightarrow> string \<Rightarrow> 'n json option option" where
  "get_prop None k = None"
| "get_prop (Some JNull) k = None"
| "get_prop (Some (JObj kvs)) k = Some (map_of kvs k)"
| "get_prop (Some (JBool b)) k = Some None"
| "get_prop (Some (JNum n)) k = Some None"
| "get_prop (Some (JStr s)) k = Some None"
| "get_prop (Some (JArr xs)) k = Some None"

text \<open>
  \<open>tt?.includes('receive')\<close>: \<open>undefined\<close> (falsy, here \<open>False\<close>) on a missing or null
  value, the substring test on a string, membership on an array, and a TypeError
  (\<open>None\<close>) on a number, a boolean or an object, which have no function \<open>includes\<close>.
\<close>

fun includes_receive :: "'n json option \<Rightarrow> bool option" where
  "includes_receive None = Some False"
| "includes_receive (Some JNull) = Some False"
| "includes_receive (Some (JStr s)) = Some (str_includes s ''receive'')"
| "includes_receive (Some (JArr xs)) = Some (JStr ''receive'' \<in> set xs)"
| "includes_receive (Some (JBool b)) = None"
| "includes_receive (Some (JNum n)) = None"
| "includes_receive (Some (JObj kvs)) = None"

fun join_with :: "string \<Rightarrow> string list \<Rightarrow> string" where
  "join_with sep [] = []"
| "join_with sep [s] = s"
| "join_with sep (s # t # ss) = s @ sep @ join_with sep (t # ss)"

fun those_strings :: "string option list \<Rightarrow> string list option" where
  "those_strings [] = Some []"
| "those_strings (None # xs) = None"
| "those_strings (Some s # xs) = (case those_strings xs of None \<Rightarrow> None | Some ss \<Rightarrow> Some (s # ss))"

text \<open>
  \<open>v.toLocaleString()\<close> on a value that is neither \<open>undefined\<close> nor \<open>null\<close>. A number has
  the platform's locale formatting and a string is returned as it is. A boolean and an
  object inherit \<open>Object.prototype.toLocaleString\<close>, which calls \<open>this.toString()\<close>: that is
  \<open>true\<close>/\<open>false\<close> for a boolean and \<open>[object Object]\<close> for an object, and a TypeError
  (\<open>None\<close>) where an own \<open>toLocaleString\<close> or \<open>toString\<close> entry of the object, which is never
  a function in parsed JSON, hides the method. An array joins the renderings of its
  elements (\<open>null\<close> elements empty) with the platform's list separator and throws where an
  element does.
\<close>

fun toLocaleString :: "'n platform \<Rightarrow> 'n json \<Rightarrow> string option" where
  "toLocaleString pf JNull = Some []"
| "toLocaleString pf (JBool b) = Some (if b then ''true'' else ''false'')"
| "toLocaleString pf (JNum n) = Some (num_toLocaleString pf n)"
| "toLocaleString pf (JStr s) = Some s"
| "toLocaleString pf (JArr xs) =
     map_option (join_with (list_separator pf)) (those_strings (map (toLocaleString pf) xs))"
| "toLocaleString pf (JObj kvs) =
     (if ''toLocaleString'' \<in> fst ` set kvs \<or> ''toString'' \<in> fst ` set kvs then None
      else Some ''[object Object]'')"

text \<open>\<open>tx.amount?.toLocaleString() || '0'\<close>.\<close>

definition amount_text :: "'n platform \<Rightarrow> 'n json option \<Rightarrow> string option" where
  "amount_text pf a =
     (case a of
        None \<Rightarrow> Some ''0''
      | Some JNull \<Rightarrow> Some ''0''
      | Some v \<Rightarrow>
          (case toLocaleString pf v of
             None \<Rightarrow> None
           | Some s \<Rightarrow> Some (if s = [] then ''0'' else s)))"

text \<open>
  A piece of the \<open>try\<close> block yields the effects it produced and whether it completed or
  threw; \<open>and_then\<close> is sequential composition, which stops at the first throw.
\<close>

type_synonym 'n run = "'n effect list \<times> outcome"

definition and_then :: "'n run \<Rightarrow> 'n run \<Rightarrow> 'n run" where
  "and_then a b =
     (case a of (es, Throws) \<Rightarrow> (es, Throws) | (es, Returns) \<Rightarrow> (es @ fst b, snd b))"

text \<open>\<open>this.callbacks.k?.(arg)\<close>.\<close>

definition call_cb :: "cbkind \<Rightarrow> ('n json option \<Rightarrow> outcome) option \<Rightarrow> 'n json option \<Rightarrow> 'n run" where
  "call_cb k cb arg = (case cb of None \<Rightarrow> ([], Returns) | Some f \<Rightarrow> ([Invoke k arg], f arg))"

definition on_transaction :: "'n platform \<Rightarrow> 'n callbacks \<Rightarrow> 'n json option \<Rightarrow> 'n run" where
  "on_transaction pf cbs d =
     and_then (call_cb OnTransactionNotification (onTransactionNotification cbs) d)
       (case get_prop d ''transaction'' of
          None \<Rightarrow> ([], Throws)
        | Some tx \<Rightarrow>
            if truthy pf tx then
              (case get_prop tx ''transaction_type'' of
                 None \<Rightarrow> ([], Throws)
               | Some tt \<Rightarrow>
                   (case includes_receive tt of
                      None \<Rightarrow> ([], Throws)
                    | Some isReceive \<Rightarrow>
                        (case get_prop tx ''amount'' of
                           None \<Rightarrow> ([], Throws)
                         | Some a \<Rightarrow>
                             (case amount_text pf a of
                                None \<Rightarrow> ([], Throws)
                              | Some amount \<Rightarrow>
                                  ([Toast TSuccess
                                      (JStr ((if isReceive then ''Received'' else ''Sent'')
                                             @ '' KES '' @ amount))
                                      (Some (if isReceive then MoneyBag else MoneyWithWings))],
                                   Returns)))))
            else ([], Returns))"

definition on_system :: "'n platform \<Rightarrow> 'n callbacks \<Rightarrow> 'n json option \<Rightarrow> 'n run" where
  "on_system pf cbs d =
     and_then (call_cb OnSystemNotification (onSystemNotification cbs) d)
       (case get_prop d ''message'' of
          None \<Rightarrow> ([], Throws)
        | Some None \<Rightarrow> ([], Returns)
        | Some (Some m) \<Rightarrow>
            if truthy pf (Some m) then
              (case get_prop d ''level'' of
                 None \<Rightarrow> ([], Throws)
               | Some l \<Rightarrow>
                   (let level = (if truthy pf l then l else Some (JStr ''info'')) in
                    if level = Some (JStr ''error'') then ([Toast TError m None], Returns)
                    else if level = Some (JStr ''warning'') then
                      ([Toast TPlain m (Some WarningSign)], Returns)
                    else ([Toast TSuccess m None], Returns)))
            else ([], Returns))"

definition on_error :: "'n platform \<Rightarrow> 'n callbacks \<Rightarrow> 'n json option \<Rightarrow> 'n run" where
  "on_error pf cbs d =
     and_then (call_cb OnError (onError cbs) d)
       (case get_prop d ''error'' of
          None \<Rightarrow> ([], Throws)
        | Some None \<Rightarrow> ([], Returns)
        | Some (Some e) \<Rightarrow>
            if truthy pf (Some e) then ([Toast TError e None], Returns) else ([], Returns))"

text \<open>The \<open>switch (message.type)\<close>: strict equality with the seven string labels.\<close>

definition dispatch :: "'n platform \<Rightarrow> 'n callbacks \<Rightarrow> 'n json option \<Rightarrow> 'n json option \<Rightarrow> 'n run" where
  "dispatch pf cbs ty d =
     (if ty = Some (JStr ''connection_established'') then
        call_cb OnConnectionEstablished (onConnectionEstablished cbs) d
      else if ty = Some (JStr ''balance_update'') then
        call_cb OnBalanceUpdate (onBalanceUpdate cbs) d
      else if ty = Some (JStr ''transaction_notification'') then on_transaction pf cbs d
      else if ty = Some (JStr ''bot_status_update'') then
        call_cb OnBotStatusUpdate (onBotStatusUpdate cbs) d
      else if ty = Some (JStr ''system_notification'') then on_system pf cbs d
      else if ty = Some (JStr ''error_notification'') then on_error pf cbs d
      else if ty = Some (JStr ''pong'') then ([], Returns)
      else ([Console Log ''Unknown WebSocket message type:''], Returns))"

text \<open>The body of the \<open>try\<close> block of \<open>handleMessage\<close>.\<close>

definition handleMessage_try :: "'n platform \<Rightarrow> 'n callbacks \<Rightarrow> string \<Rightarrow> string \<Rightarrow> 'n run" where
  "handleMessage_try pf cbs data source =
     (case json_parse pf data of
        None \<Rightarrow> ([], Throws)
      | Some message \<Rightarrow>
          and_then ([Console Log (''WebSocket message from '' @ source @ '':'')], Returns)
            (case get_prop (Some message) ''type'' of
               None \<Rightarrow> ([], Throws)
             | Some ty \<Rightarrow>
                 (case get_prop (Some message) ''data'' of
                    None \<Rightarrow> ([], Throws)
                  | Some d \<Rightarrow> dispatch pf cbs ty d)))"

definition handleMessage :: "'n platform \<Rightarrow> nat \<Rightarrow> string \<Rightarrow> string \<Rightarrow> 'n world \<Rightarrow> 'n world" where
  "handleMessage pf sid data source w =
     (case handleMessage_try pf (callbacks (services w ! sid)) data source of
        (es, Returns) \<Rightarrow> emit es w
      | (es, Throws) \<Rightarrow> emit (es @ [Console Error ''Error parsing WebSocket message:'']) w)"

subsection \<open>connect and the three channel openers\<close>

fun topic_name :: "topic \<Rightarrow> string" where
  "topic_name Wallet = ''wallet''"
| "topic_name Bots = ''bots''"
| "topic_name Notifications = ''notifications''"

fun topic_title :: "topic \<Rightarrow> string" where
  "topic_title Wallet = ''Wallet''"
| "topic_title Bots = ''Bots''"
| "topic_title Notifications = ''Notifications''"

text \<open>\<open>String.prototype.replace\<close> with a string pattern: the first occurrence only.\<close>

fun replace_first :: "string \<Rightarrow> string \<Rightarrow> string \<Rightarrow> string" where
  "replace_first pat rep [] = (if pat = [] then rep else [])"
| "replace_first pat rep (c # cs) =
     (if starts_with (c # cs) pat then rep @ drop (length pat) (c # cs)
      else c # replace_first pat rep cs)"

definition ws_url :: "'n service \<Rightarrow> topic \<Rightarrow> string" where
  "ws_url s t =
     replace_first ''http'' ''ws'' (baseUrl s) @ ''/ws/'' @ topic_name t @ ''/'' @ userId s
       @ ''?token='' @ authToken s"

fun socket_field :: "topic \<Rightarrow> 'n service \<Rightarrow> nat option" where
  "socket_field Wallet s = walletSocket s"
| "socket_field Bots s = botsSocket s"
| "socket_field Notifications s = notificationsSocket s"

fun set_socket_field :: "topic \<Rightarrow> nat option \<Rightarrow> 'n service \<Rightarrow> 'n service" where
  "set_socket_field Wallet v s = s\<lparr> walletSocket := v \<rparr>"
| "set_socket_field Bots v s = s\<lparr> botsSocket := v \<rparr>"
| "set_socket_field Notifications v s = s\<lparr> notificationsSocket := v \<rparr>"

text \<open>
  The promise returned by an \<open>async\<close> function is fulfilled when the body completes and
  rejected when the body throws.
\<close>

fun async_settle :: "nat \<Rightarrow> outcome \<Rightarrow> 'n world \<Rightarrow> 'n world" where
  "async_settle sid Returns w = emit [ConnectSettled sid Fulfilled] w"
| "async_settle sid Throws w = emit [ConnectSettled sid Rejected] w"

text \<open>
  The \<open>catch\<close> block of \<open>connect\<close>, reached when an awaited channel promise is rejected.
  None of its statements throws, so the body of \<open>connect\<close> completes.
\<close>

definition connect_catch :: "nat \<Rightarrow> 'n world \<Rightarrow> 'n world" where
  "connect_catch sid w =
     async_settle sid Returns
       (scheduleReconnect sid
          (upd_service sid (\<lambda>s. s\<lparr> isConnecting := False \<rparr>)
             (emit [Console Error ''Error connecting WebSockets:''] w)))"

text \<open>
  \<open>connectWallet\<close>, \<open>connectBots\<close>, \<open>connectNotifications\<close> up to the point where the
  executor returns: where the platform accepts the URL, the new socket is stored in the
  instance's field (the previous handle is overwritten, not closed) and the promise is
  pending (\<open>True\<close>); where \<open>new WebSocket\<close> throws, the inner \<open>catch\<close> rejects the promise
  (\<open>False\<close>) and the field keeps its value.
\<close>

definition connectChannel :: "'n platform \<Rightarrow> nat \<Rightarrow> topic \<Rightarrow> 'n world \<Rightarrow> 'n world \<times> bool" where
  "connectChannel pf sid t w =
     (let wsUrl = ws_url (services w ! sid) t in
      if url_accepted pf wsUrl then
        (let i = length (sockets w);
             w1 = w\<lparr> sockets := sockets w @
                    [\<lparr> owner = sid, topic = t, url = wsUrl, readyState = CONNECTING,
                       pending = True, sent = [] \<rparr>] \<rparr>
         in (upd_service sid (set_socket_field t (Some i)) w1, True))
      else (w, False))"

text \<open>The three openers differ in the topic only (and in the \<open>onclose\<close> handler, below).\<close>

abbreviation connectWallet :: "'n platform \<Rightarrow> nat \<Rightarrow> 'n world \<Rightarrow> 'n world \<times> bool" where
  "connectWallet pf sid w \<equiv> connectChannel pf sid Wallet w"

abbreviation connectBots :: "'n platform \<Rightarrow> nat \<Rightarrow> 'n world \<Rightarrow> 'n world \<times> bool" where
  "connectBots pf sid w \<equiv> connectChannel pf sid Bots w"

abbreviation connectNotifications :: "'n platform \<Rightarrow> nat \<Rightarrow> 'n world \<Rightarrow> 'n world \<times> bool" where
  "connectNotifications pf sid w \<equiv> connectChannel pf sid Notifications w"

text \<open>The \<open>try\<close> block of \<open>connect\<close> from the statement \<open>await this.connect<t>()\<close> on.\<close>

definition connect_await :: "'n platform \<Rightarrow> nat \<Rightarrow> topic \<Rightarrow> 'n world \<Rightarrow> 'n world" where
  "connect_await pf sid t w =
     (case connectChannel pf sid t w of
        (w1, True) \<Rightarrow> w1
      | (w1, False) \<Rightarrow> connect_catch sid w1)"

text \<open>The continuation of \<open>connect\<close> once the awaited promise of channel \<open>t\<close> is resolved.\<close>

fun connect_resume :: "'n platform \<Rightarrow> nat \<Rightarrow> topic \<Rightarrow> 'n world \<Rightarrow> 'n world" where
  "connect_resume pf sid Wallet w = connect_await pf sid Bots w"
| "connect_resume pf sid Bots w = connect_await pf sid Notifications w"
| "connect_resume pf sid Notifications w =
     async_settle sid Returns
       (emit [Console Log ''All WebSocket connections established'']
          (upd_service sid (\<lambda>s. s\<lparr> reconnectAttempts := 0, isConnecting := False \<rparr>) w))"

definition connect :: "'n platform \<Rightarrow> nat \<Rightarrow> 'n world \<Rightarrow> 'n world" where
  "connect pf sid w =
     (if isConnecting (services w ! sid) then async_settle sid Returns w
      else connect_await pf sid Wallet (upd_service sid (\<lambda>s. s\<lparr> isConnecting := True \<rparr>) w))"

subsection \<open>sendMessage and the named messages\<close>

definition sendMessage :: "'n platform \<Rightarrow> nat \<Rightarrow> 'n json \<Rightarrow> topic \<Rightarrow> 'n world \<Rightarrow> 'n world" where
  "sendMessage pf sid message socketType w =
     (case socket_field socketType (services w ! sid) of
        None \<Rightarrow> emit [Console Warn (''WebSocket '' @ topic_name socketType @ '' is not connected'')] w
      | Some i \<Rightarrow>
          if readyState (sockets w ! i) = OPEN then
            (case json_stringify pf message of
               None \<Rightarrow>
                 emit [Console Error (''Error sending message to '' @ topic_name socketType
                         @ '' WebSocket:'')] w
             | Some text \<Rightarrow> upd_socket i (\<lambda>k. k\<lparr> sent := sent k @ [text] \<rparr>) w)
          else emit [Console Warn (''WebSocket '' @ topic_name socketType @ '' is not connected'')] w)"

definition ping :: "'n platform \<Rightarrow> nat \<Rightarrow> topic \<Rightarrow> 'n world \<Rightarrow> 'n world" where
  "ping pf sid socketType w = sendMessage pf sid (JObj [(''type'', JStr ''ping'')]) socketType w"

definition subscribeToTransactions :: "'n platform \<Rightarrow> nat \<Rightarrow> 'n world \<Rightarrow> 'n world" where
  "subscribeToTransactions pf sid w =
     sendMessage pf sid (JObj [(''type'', JStr ''subscribe_transactions'')]) Wallet w"

definition getWalletStatus :: "'n platform \<Rightarrow> nat \<Rightarrow> 'n world \<Rightarrow> 'n world" where
  "getWalletStatus pf sid w =
     sendMessage pf sid (JObj [(''type'', JStr ''get_wallet_status'')]) Wallet w"

definition subscribeToBotUpdates :: "'n platform \<Rightarrow> nat \<Rightarrow> string \<Rightarrow> 'n world \<Rightarrow> 'n world" where
  "subscribeToBotUpdates pf sid botId w =
     sendMessage pf sid
       (JObj [(''type'', JStr ''subscribe_bot_updates''), (''bot_id'', JStr botId)]) Bots w"

subsection \<open>disconnect, isConnected\<close>

text \<open>
  \<open>WebSocket.close()\<close>: nothing on a socket that is closing or closed; otherwise the
  socket starts closing. Its handlers stay installed, and the close event comes later.
\<close>

definition ws_close :: "socket \<Rightarrow> socket" where
  "ws_close k =
     (if readyState k = CLOSING \<or> readyState k = CLOSED then k
      else k\<lparr> readyState := CLOSING \<rparr>)"

definition close_field :: "nat \<Rightarrow> topic \<Rightarrow> 'n world \<Rightarrow> 'n world" where
  "close_field sid t w =
     (case socket_field t (services w ! sid) of
        None \<Rightarrow> w
      | Some i \<Rightarrow> upd_service sid (set_socket_field t None) (upd_socket i ws_close w))"

definition disconnect :: "nat \<Rightarrow> 'n world \<Rightarrow> 'n world" where
  "disconnect sid w =
     emit [Console Log ''All WebSocket connections closed'']
       (close_field sid Notifications (close_field sid Bots (close_field sid Wallet w)))"

definition socket_open :: "'n world \<Rightarrow> nat option \<Rightarrow> bool" where
  "socket_open w h = (case h of None \<Rightarrow> False | Some i \<Rightarrow> readyState (sockets w ! i) = OPEN)"

definition isConnected :: "'n world \<Rightarrow> nat \<Rightarrow> bool" where
  "isConnected w sid =
     (let s = services w ! sid in
      socket_open w (walletSocket s) \<or> socket_open w (botsSocket s)
        \<or> socket_open w (notificationsSocket s))"

definition setCallbacks :: "nat \<Rightarrow> 'n callbacks \<Rightarrow> 'n world \<Rightarrow> 'n world" where
  "setCallbacks sid cbs w = upd_service sid (\<lambda>s. s\<lparr> callbacks := cbs \<rparr>) w"

subsection \<open>The module-level singleton\<close>

definition new_service :: "string \<Rightarrow> string \<Rightarrow> string \<Rightarrow> 'n service" where
  "new_service b a u =
     \<lparr> walletSocket = None, botsSocket = None, notificationsSocket = None,
       reconnectAttempts = 0, maxReconnectAttempts = 5, reconnectDelay = 1000,
       callbacks = no_callbacks, isConnecting = False,
       baseUrl = b, authToken = a, userId = u \<rparr>"

definition initializeWebSocket ::
    "string \<Rightarrow> string \<Rightarrow> string \<Rightarrow> 'n callbacks \<Rightarrow> 'n world \<Rightarrow> 'n world" where
  "initializeWebSocket b a u cbs w =
     (let w1 = (case websocketService w of None \<Rightarrow> w | Some old \<Rightarrow> disconnect old w);
          sid = length (services w1);
          w2 = w1\<lparr> services := services w1 @ [new_service b a u], websocketService := Some sid \<rparr>
      in setCallbacks sid cbs w2)"

definition getWebSocketService :: "'n world \<Rightarrow> nat option" where
  "getWebSocketService w = websocketService w"

definition disconnectWebSocket :: "'n world \<Rightarrow> 'n world" where
  "disconnectWebSocket w =
     (case websocketService w of
        None \<Rightarrow> w
      | Some sid \<Rightarrow> (disconnect sid w)\<lparr> websocketService := None \<rparr>)"

subsection \<open>Events\<close>

text \<open>
  The socket handlers installed by the channel openers. An event on a socket in a state
  where the browser does not deliver it leaves the world as it is.
\<close>

definition sock_open :: "'n platform \<Rightarrow> nat \<Rightarrow> 'n world \<Rightarrow> 'n world" where
  "sock_open pf i w =
     (let k = sockets w ! i in
      if readyState k \<noteq> CONNECTING then w
      else
        (let w1 = upd_socket i (\<lambda>k. k\<lparr> readyState := OPEN \<rparr>) w;
             w2 = emit [Console Log (topic_title (topic k) @ '' WebSocket connected'')] w1
         in if pending k then
              connect_resume pf (owner k) (topic k) (upd_socket i (\<lambda>k. k\<lparr> pending := False \<rparr>) w2)
            else w2))"

definition sock_message :: "'n platform \<Rightarrow> nat \<Rightarrow> string \<Rightarrow> 'n world \<Rightarrow> 'n world" where
  "sock_message pf i data w =
     (let k = sockets w ! i in
      if readyState k = OPEN then handleMessage pf (owner k) data (topic_name (topic k)) w
      else w)"

definition sock_error :: "nat \<Rightarrow> 'n world \<Rightarrow> 'n world" where
  "sock_error i w =
     (let k = sockets w ! i in
      if readyState k = CLOSED then w
      else
        (let w1 = emit [Console Error (topic_title (topic k) @ '' WebSocket error:'')] w
         in if pending k then
              connect_catch (owner k) (upd_socket i (\<lambda>k. k\<lparr> pending := False \<rparr>) w1)
            else w1))"

text \<open>
  The \<open>onclose\<close> handlers. Only the wallet handler calls \<open>onDisconnect\<close>; where that
  callback throws, the handler ends there and the exception is uncaught.
\<close>

definition sock_close :: "nat \<Rightarrow> 'n world \<Rightarrow> 'n world" where
  "sock_close i w =
     (let k = sockets w ! i in
      if readyState k = CLOSED then w
      else
        (let w1 = upd_socket i (\<lambda>k. k\<lparr> readyState := CLOSED \<rparr>) w;
             w2 = emit [Console Log (topic_title (topic k) @ '' WebSocket disconnected'')] w1
         in if topic k = Wallet then
              (case onDisconnect (callbacks (services w ! owner k)) of
                 None \<Rightarrow> scheduleReconnect (owner k) w2
               | Some Returns \<Rightarrow> scheduleReconnect (owner k) (emit [Invoke OnDisconnect None] w2)
               | Some Throws \<Rightarrow> emit [Invoke OnDisconnect None, Uncaught] w2)
            else scheduleReconnect (owner k) w2))"

text \<open>A pending timer fires: it leaves the timer list and calls \<open>connect()\<close>.\<close>

definition timer_fire :: "'n platform \<Rightarrow> nat \<Rightarrow> 'n world \<Rightarrow> 'n world" where
  "timer_fire pf j w =
     (if j < length (timers w) then
        connect pf (fst (timers w ! j)) (w\<lparr> timers := take j (timers w) @ drop (Suc j) (timers w) \<rparr>)
      else w)"

datatype 'n event =
    CallInitialize string string string "'n callbacks"
  | CallDisconnectWebSocket
  | CallConnect nat
  | CallDisconnect nat
  | CallSetCallbacks nat "'n callbacks"
  | CallSendMessage nat "'n json" topic
  | CallPing nat topic
  | CallSubscribeToTransactions nat
  | CallGetWalletStatus nat
  | CallSubscribeToBotUpdates nat string
  | SockOpen nat
  | SockMessage nat string
  | SockError nat
  | SockClose nat
  | TimerFire nat

text \<open>
  One event of the event loop. A method call names an instance that exists; a socket
  event names a socket that exists.
\<close>

fun step :: "'n platform \<Rightarrow> 'n event \<Rightarrow> 'n world \<Rightarrow> 'n world" where
  "step pf (CallInitialize b a u cbs) w = initializeWebSocket b a u cbs w"
| "step pf CallDisconnectWebSocket w = disconnectWebSocket w"
| "step pf (CallConnect sid) w = (if sid < length (services w) then connect pf sid w else w)"
| "step pf (CallDisconnect sid) w = (if sid < length (services w) then disconnect sid w else w)"
| "step pf (CallSetCallbacks sid cbs) w =
     (if sid < length (services w) then setCallbacks sid cbs w else w)"
| "step pf (CallSendMessage sid m t) w =
     (if sid < length (services w) then sendMessage pf sid m t w else w)"
| "step pf (CallPing sid t) w = (if sid < length (services w) then ping pf sid t w else w)"
| "step pf (CallSubscribeToTransactions sid) w =
     (if sid < length (services w) then subscribeToTransactions pf sid w else w)"
| "step pf (CallGetWalletStatus sid) w =
     (if sid < length (services w) then getWalletStatus pf sid w else w)"
| "step pf (CallSubscribeToBotUpdates sid b) w =
     (if sid < length (services w) then subscribeToBotUpdates pf sid b w else w)"
| "step pf (SockOpen i) w = (if i < length (sockets w) then sock_open pf i w else w)"
| "step pf (SockMessage i data) w = (if i < length (sockets w) then sock_message pf i data w else w)"
| "step pf (SockError i) w = (if i < length (sockets w) then sock_error i w else w)"
| "step pf (SockClose i) w = (if i < length (sockets w) then sock_close i w else w)"
| "step pf (TimerFire j) w = timer_fire pf j w"

definition run :: "'n platform \<Rightarrow> 'n event list \<Rightarrow> 'n world \<Rightarrow> 'n world" where
  "run pf es w = foldl (\<lambda>w e. step pf e w) w es"

subsection \<open>A suspended connect\<close>

text \<open>
  \<open>connect()\<close> of instance \<open>sid\<close> is suspended at \<open>await this.connect<t>()\<close> on the promise
  of socket \<open>i\<close>: the socket was created by that call, has not opened, and its promise is
  pending.
\<close>

definition awaiting :: "'n world \<Rightarrow> nat \<Rightarrow> topic \<Rightarrow> nat \<Rightarrow> bool" where
  "awaiting w sid t i =
     (i < length (sockets w) \<and> owner (sockets w ! i) = sid \<and> topic (sockets w ! i) = t
      \<and> readyState (sockets w ! i) = CONNECTING \<and> pending (sockets w ! i))"

subsection \<open>Well-formed worlds\<close>

text \<open>
  What every instance created by the constructor satisfies, and what the worlds reached
  from the initial one satisfy: the cap is 5, the base delay is 1000 ms, the attempt
  counter is at most the cap, and every reference names an existing instance.
\<close>

definition service_ok :: "'n service \<Rightarrow> bool" where
  "service_ok s =
     (maxReconnectAttempts s = 5 \<and> reconnectDelay s = 1000 \<and> reconnectAttempts s \<le> 5)"

definition backoff_delay :: "nat \<Rightarrow> bool" where
  "backoff_delay d = (d = 1000 \<or> d = 2000 \<or> d = 4000 \<or> d = 8000 \<or> d = 16000)"

definition wf_world :: "'n world \<Rightarrow> bool" where
  "wf_world w =
     ((\<forall>s \<in> set (services w). service_ok s)
      \<and> (\<forall>k \<in> set (sockets w). owner k < length (services w))
      \<and> (\<forall>t \<in> set (timers w). fst t < length (services w) \<and> backoff_delay (snd t))
      \<and> (\<forall>sid. websocketService w = Some sid \<longrightarrow> sid < length (services w)))"

subsection \<open>Reading the trace\<close>

fun is_invoke :: "'n effect \<Rightarrow> bool" where
  "is_invoke (Invoke k a) = True"
| "is_invoke e = False"

fun is_toast :: "'n effect \<Rightarrow> bool" where
  "is_toast (Toast k m i) = True"
| "is_toast e = False"

definition invocations :: "'n effect list \<Rightarrow> 'n effect list" where
  "invocations es = filter is_invoke es"

definition toasts :: "'n effect list \<Rightarrow> 'n effect list" where
  "toasts es = filter is_toast es"

fun is_onDisconnect :: "'n effect \<Rightarrow> bool" where
  "is_onDisconnect (Invoke k a) = (k = OnDisconnect)"
| "is_onDisconnect e = False"

fun is_rejected :: "'n effect \<Rightarrow> bool" where
  "is_rejected (ConnectSettled sid r) = (r = Rejected)"
| "is_rejected e = False"

fun is_settled :: "nat \<Rightarrow> 'n effect \<Rightarrow> bool" where
  "is_settled sid (ConnectSettled sid' r) = (sid' = sid)"
| "is_settled sid e = False"

fun is_connection_lost :: "'n effect \<Rightarrow> bool" where
  "is_connection_lost (Toast k m i) =
     (k = TError \<and> m = JStr ''Connection lost. Please refresh the page.'')"
| "is_connection_lost e = False"

text \<open>
  A class of effects that no operation emits except, for \<open>onDisconnect\<close>, the wallet
  socket's \<open>onclose\<close> handler: it contains no console line, no toast, no fulfilled
  promise, no uncaught exception and no invocation of a callback other than
  \<open>onDisconnect\<close>.
\<close>

definition benign :: "('n effect \<Rightarrow> bool) \<Rightarrow> bool" where
  "benign P =
     ((\<forall>l s. \<not> P (Console l s)) \<and> (\<forall>k m i. \<not> P (Toast k m i))
      \<and> (\<forall>sid. \<not> P (ConnectSettled sid Fulfilled)) \<and> \<not> P Uncaught
      \<and> (\<forall>k a. k \<noteq> OnDisconnect \<longrightarrow> \<not> P (Invoke k a)))"

text \<open>The values of \<open>type\<close> that the \<open>switch\<close> of \<open>handleMessage\<close> has a case for.\<close>

definition recognized_types :: "string list" where
  "recognized_types =
     [''connection_established'', ''balance_update'', ''transaction_notification'',
      ''bot_status_update'', ''system_notification'', ''error_notification'', ''pong'']"

subsection \<open>A platform and worlds to instantiate the theorems\<close>

text \<open>
  Integers stand for the numbers, formatted with a comma between groups of three digits
  (the \<open>en-US\<close> rendering of an integer). The parser is passed in, so that an instance
  can fix the value a given frame parses to.
\<close>

function group_digits :: "nat \<Rightarrow> string" where
  "group_digits n =
     (if n < 1000 then show_nat n
      else group_digits (n div 1000) @ '','' @
           [digit_char (n mod 1000 div 100), digit_char (n mod 100 div 10), digit_char (n mod 10)])"
  by pat_completeness auto
termination
  by (relation "measure id") auto

declare group_digits.simps [simp del]

definition en_US :: "int \<Rightarrow> string" where
  "en_US n = (if n < 0 then ''-'' @ group_digits (nat (- n)) else group_digits (nat n))"

definition test_platform :: "(string \<Rightarrow> int json option) \<Rightarrow> int platform" where
  "test_platform parse =
     \<lparr> json_parse = parse, json_stringify = (\<lambda>m. Some ''{}''), num_truthy = (\<lambda>n. n \<noteq> 0),
       num_toLocaleString = en_US, list_separator = '','', url_accepted = (\<lambda>u. True) \<rparr>"

definition fresh_world :: "int world" where
  "fresh_world =
     step (test_platform (\<lambda>s. None))
       (CallInitialize ''http://localhost:8000'' ''tok'' ''u1'' no_callbacks) init_world"

text \<open>
  The wallet channel opened and closed again: all three channels open, then the wallet
  socket closes.
\<close>

definition closed_wallet_world :: "int world" where
  "closed_wallet_world =
     run (test_platform (\<lambda>s. None))
       [CallInitialize ''http://localhost:8000'' ''tok'' ''u1'' no_callbacks, CallConnect 0,
        SockOpen 0, SockOpen 1, SockOpen 2, SockClose 0] init_world"

definition plain_platform :: "int platform" where
  "plain_platform = test_platform (\<lambda>s. None)"

text \<open>
  A caller that registered \<open>onDisconnect\<close>, with all three channels open.
\<close>

definition watching_callbacks :: "int callbacks" where
  "watching_callbacks = no_callbacks\<lparr> onDisconnect := Some Returns \<rparr>"

definition open_world :: "int world" where
  "open_world =
     run (test_platform (\<lambda>s. None))
       [CallInitialize ''http://localhost:8000'' ''tok'' ''u1'' watching_callbacks, CallConnect 0,
        SockOpen 0, SockOpen 1, SockOpen 2] init_world"

text \<open>The wallet channel fails to open during the first \<open>connect()\<close>.\<close>

definition failed_open_world :: "int world" where
  "failed_open_world =
     run plain_platform
       [CallInitialize ''http://localhost:8000'' ''tok'' ''u1'' no_callbacks, CallConnect 0,
        SockError 0] init_world"

text \<open>
  The first \<open>connect()\<close> fails on the wallet socket (error, then close); the first timer
  fires and the wallet socket of the second \<open>connect()\<close> opens.
\<close>

definition reopened_wallet_world :: "int world" where
  "reopened_wallet_world =
     run plain_platform
       [CallInitialize ''http://localhost:8000'' ''tok'' ''u1'' no_callbacks, CallConnect 0,
        SockError 0, SockClose 0, TimerFire 0, SockOpen 1] init_world"

text \<open>
  Every \<open>connect()\<close> fails on its wallet socket (error, then close) and the next pending
  timer fires: four failed connects.
\<close>

definition exhausted_world :: "int world" where
  "exhausted_world =
     run plain_platform
       [CallInitialize ''http://localhost:8000'' ''tok'' ''u1'' no_callbacks, CallConnect 0,
        SockError 0, SockClose 0, TimerFire 0, SockError 1, SockClose 1, TimerFire 0,
        SockError 2, SockClose 2, TimerFire 0, SockError 3, SockClose 3] init_world"

text \<open>
  A first instance is initialized and connected; a second \<open>initializeWebSocket\<close> replaces
  it and the second instance connects. Then the close event of the first instance's
  wallet socket (closed by the teardown) arrives, the timer it scheduled fires and the
  wallet socket it opens is accepted by the server.
\<close>

definition replaced_world :: "int world" where
  "replaced_world =
     run plain_platform
       [CallInitialize ''http://localhost:8000'' ''tok'' ''u1'' no_callbacks, CallConnect 0,
        SockOpen 0, SockOpen 1, SockOpen 2,
        CallInitialize ''http://localhost:8000'' ''tok'' ''u1'' no_callbacks, CallConnect 1,
        SockOpen 3, SockOpen 4, SockOpen 5] init_world"

definition revived_world :: "int world" where
  "revived_world = run plain_platform [SockClose 0, TimerFire 0, SockOpen 6] replaced_world"

text \<open>
  From \<open>exhausted_world\<close>: a pending timer fires, the three sockets of that \<open>connect()\<close>
  open, and then its wallet socket closes.
\<close>

definition recovered_world :: "int world" where
  "recovered_world =
     run plain_platform [TimerFire 0, SockOpen 4, SockOpen 5, SockOpen 6, SockClose 4]
       exhausted_world"

text \<open>
  A caller whose \<open>onDisconnect\<close> throws; the wallet socket of its first \<open>connect()\<close> is open.
\<close>

definition throwing_callbacks :: "int callbacks" where
  "throwing_callbacks = no_callbacks\<lparr> onDisconnect := Some Throws \<rparr>"

definition throwing_world :: "int world" where
  "throwing_world =
     run plain_platform
       [CallInitialize ''http://localhost:8000'' ''tok'' ''u1'' throwing_callbacks, CallConnect 0,
        SockOpen 0] init_world"





section \<open>Properties\<close>

subsection \<open>Field projections and well-formedness\<close>

lemma emit_fields [simp]:
  "services (emit es w) = services w"
  "sockets (emit es w) = sockets w"
  "timers (emit es w) = timers w"
  "websocketService (emit es w) = websocketService w"
  "trace (emit es w) = trace w @ es"
  by (simp_all add: emit_def)

lemma upd_service_fields [simp]:
  "services (upd_service sid f w) = (services w)[sid := f (services w ! sid)]"
  "sockets (upd_service sid f w) = sockets w"
  "timers (upd_service sid f w) = timers w"
  "websocketService (upd_service sid f w) = websocketService w"
  "trace (upd_service sid f w) = trace w"
  by (simp_all add: upd_service_def)

lemma upd_socket_fields [simp]:
  "services (upd_socket i f w) = services w"
  "sockets (upd_socket i f w) = (sockets w)[i := f (sockets w ! i)]"
  "timers (upd_socket i f w) = timers w"
  "websocketService (upd_socket i f w) = websocketService w"
  "trace (upd_socket i f w) = trace w"
  by (simp_all add: upd_socket_def)

lemma scheduleReconnect_under:
  assumes "reconnectAttempts (services w ! sid) < maxReconnectAttempts (services w ! sid)"
  shows "services (scheduleReconnect sid w) =
           (services w)[sid := (services w ! sid)\<lparr> reconnectAttempts := Suc (reconnectAttempts (services w ! sid)) \<rparr>]"
    and "timers (scheduleReconnect sid w) =
           timers w @ [(sid, reconnectDelay (services w ! sid) * 2 ^ reconnectAttempts (services w ! sid))]"
    and "sockets (scheduleReconnect sid w) = sockets w"
    and "websocketService (scheduleReconnect sid w) = websocketService w"
    and "trace (scheduleReconnect sid w) =
           trace w @ [Console Log (''Scheduling WebSocket reconnect in ''
              @ show_nat (reconnectDelay (services w ! sid) * 2 ^ reconnectAttempts (services w ! sid))
              @ ''ms (attempt '' @ show_nat (Suc (reconnectAttempts (services w ! sid))) @ '')'')]"
  using assms by (simp_all add: scheduleReconnect_def Let_def)

lemma scheduleReconnect_cap:
  assumes "\<not> reconnectAttempts (services w ! sid) < maxReconnectAttempts (services w ! sid)"
  shows "scheduleReconnect sid w =
           emit [Console Error ''Max WebSocket reconnection attempts reached'',
                 Toast TError (JStr ''Connection lost. Please refresh the page.'') None] w"
  using assms by (simp add: scheduleReconnect_def Let_def)

lemma scheduleReconnect_same [simp]:
  "sockets (scheduleReconnect sid w) = sockets w"
  "websocketService (scheduleReconnect sid w) = websocketService w"
  "length (services (scheduleReconnect sid w)) = length (services w)"
  by (simp_all add: scheduleReconnect_def Let_def)

lemma all_set_update:
  assumes "\<forall>x \<in> set xs. P x" and "i < length xs \<Longrightarrow> P y"
  shows "\<forall>x \<in> set (xs[i := y]). P x"
proof (cases "i < length xs")
  case True
  then show ?thesis
    using assms set_update_subset_insert [of xs i y] by auto
next
  case False
  then show ?thesis using assms(1) by (simp add: list_update_beyond)
qed

lemma wf_emit [simp]: "wf_world (emit es w) = wf_world w"
  by (simp add: wf_world_def)

lemma wf_upd_service:
  assumes "wf_world w" and "\<And>s. service_ok s \<Longrightarrow> service_ok (f s)"
  shows "wf_world (upd_service sid f w)"
proof -
  have "\<forall>s \<in> set ((services w)[sid := f (services w ! sid)]). service_ok s"
    using assms by (intro all_set_update) (auto simp: wf_world_def)
  then show ?thesis using assms(1) by (simp add: wf_world_def)
qed

lemma wf_upd_socket:
  assumes "wf_world w" and "\<And>k. owner (f k) = owner k"
  shows "wf_world (upd_socket i f w)"
proof -
  have "\<forall>k \<in> set ((sockets w)[i := f (sockets w ! i)]). owner k < length (services w)"
    using assms by (intro all_set_update) (auto simp: wf_world_def)
  then show ?thesis using assms(1) by (simp add: wf_world_def)
qed

lemma backoff_delay_pow:
  assumes "n < 5"
  shows "backoff_delay (1000 * 2 ^ n)"
proof -
  from assms have "n = 0 \<or> n = 1 \<or> n = 2 \<or> n = 3 \<or> n = 4" by arith
  then show ?thesis by (auto simp: backoff_delay_def)
qed

lemma wf_scheduleReconnect:
  assumes "wf_world w" and "sid < length (services w)"
  shows "wf_world (scheduleReconnect sid w)"
proof (cases "reconnectAttempts (services w ! sid) < maxReconnectAttempts (services w ! sid)")
  case True
  let ?s = "services w ! sid"
  have ok: "service_ok ?s" using assms by (simp add: wf_world_def)
  then have lt: "reconnectAttempts ?s < 5" and d: "reconnectDelay ?s = 1000"
    using True by (simp_all add: service_ok_def)
  have 1: "\<forall>s \<in> set (services (scheduleReconnect sid w)). service_ok s"
    unfolding scheduleReconnect_under(1) [OF True]
    using assms ok lt by (intro all_set_update) (auto simp: wf_world_def service_ok_def)
  have 2: "\<forall>t \<in> set (timers (scheduleReconnect sid w)). fst t < length (services w) \<and> backoff_delay (snd t)"
    unfolding scheduleReconnect_under(2) [OF True]
    using assms lt d by (auto simp: wf_world_def backoff_delay_pow)
  show ?thesis using 1 2 assms(1) by (simp add: wf_world_def)
next
  case False
  then show ?thesis using assms(1) by (simp add: scheduleReconnect_cap)
qed

subsection \<open>Every operation keeps the world well formed\<close>

lemma connect_catch_same [simp]:
  "sockets (connect_catch sid w) = sockets w"
  "websocketService (connect_catch sid w) = websocketService w"
  "length (services (connect_catch sid w)) = length (services w)"
  by (simp_all add: connect_catch_def)

lemma wf_connect_catch:
  assumes "wf_world w" and "sid < length (services w)"
  shows "wf_world (connect_catch sid w)"
  unfolding connect_catch_def
  using assms
  by (auto intro!: wf_scheduleReconnect wf_upd_service simp: service_ok_def)

lemma set_socket_field_ok [simp]: "service_ok (set_socket_field t v s) = service_ok s"
  by (cases t) (simp_all add: service_ok_def)

lemma connectChannel_length [simp]:
  "length (services (fst (connectChannel pf sid t w))) = length (services w)"
  by (simp add: connectChannel_def Let_def)

lemma wf_connectChannel:
  assumes "wf_world w" and "sid < length (services w)"
  shows "wf_world (fst (connectChannel pf sid t w))"
proof (cases "url_accepted pf (ws_url (services w ! sid) t)")
  case True
  let ?k = "\<lparr> owner = sid, topic = t, url = ws_url (services w ! sid) t,
              readyState = CONNECTING, pending = True, sent = [] \<rparr>"
  let ?w1 = "w\<lparr> sockets := sockets w @ [?k] \<rparr>"
  have "wf_world ?w1" using assms by (auto simp: wf_world_def)
  then have "wf_world (upd_service sid (set_socket_field t (Some (length (sockets w)))) ?w1)"
    by (rule wf_upd_service) simp
  then show ?thesis using True by (simp add: connectChannel_def Let_def)
next
  case False
  then show ?thesis using assms(1) by (simp add: connectChannel_def Let_def)
qed

lemma connect_await_length [simp]:
  "length (services (connect_await pf sid t w)) = length (services w)"
  by (simp add: connect_await_def connectChannel_def Let_def)

lemma wf_connect_await:
  assumes "wf_world w" and "sid < length (services w)"
  shows "wf_world (connect_await pf sid t w)"
proof (cases "connectChannel pf sid t w")
  case (Pair w1 b)
  have w1: "wf_world w1" "sid < length (services w1)"
    using wf_connectChannel [OF assms, of pf t] connectChannel_length [of pf sid t w] assms(2) Pair
    by simp_all
  show ?thesis
    using Pair w1 by (cases b) (simp_all add: connect_await_def wf_connect_catch)
qed

lemma async_settle_eq [simp]: "async_settle sid r w = emit [ConnectSettled sid (case r of Returns \<Rightarrow> Fulfilled | Throws \<Rightarrow> Rejected)] w"
  by (cases r) simp_all

lemma wf_connect_resume:
  assumes "wf_world w" and "sid < length (services w)"
  shows "wf_world (connect_resume pf sid t w)"
proof (cases t)
  case Notifications
  have "wf_world (upd_service sid (\<lambda>s. s\<lparr> reconnectAttempts := 0, isConnecting := False \<rparr>) w)"
    using assms(1) by (rule wf_upd_service) (simp add: service_ok_def)
  then show ?thesis using Notifications by simp
qed (simp_all add: wf_connect_await assms)

lemma connect_resume_length [simp]:
  "length (services (connect_resume pf sid t w)) = length (services w)"
  by (cases t) simp_all

lemma wf_connect:
  assumes "wf_world w" and "sid < length (services w)"
  shows "wf_world (connect pf sid w)"
proof -
  have "wf_world (upd_service sid (\<lambda>s. s\<lparr> isConnecting := True \<rparr>) w)"
    using assms(1) by (rule wf_upd_service) (simp add: service_ok_def)
  then show ?thesis
    using assms by (simp add: connect_def wf_connect_await)
qed

lemma connect_length [simp]: "length (services (connect pf sid w)) = length (services w)"
  by (simp add: connect_def)

lemma wf_sendMessage:
  assumes "wf_world w"
  shows "wf_world (sendMessage pf sid m t w)"
  using assms
  by (auto simp: sendMessage_def intro!: wf_upd_socket split: option.splits)

lemma wf_close_field:
  assumes "wf_world w"
  shows "wf_world (close_field sid t w)"
  using assms
  by (auto simp: close_field_def ws_close_def intro!: wf_upd_socket wf_upd_service split: option.splits)

lemma close_field_same [simp]:
  "length (services (close_field sid t w)) = length (services w)"
  "timers (close_field sid t w) = timers w"
  "websocketService (close_field sid t w) = websocketService w"
  "trace (close_field sid t w) = trace w"
  by (simp_all add: close_field_def split: option.splits)

lemma wf_disconnect:
  assumes "wf_world w"
  shows "wf_world (disconnect sid w)"
  using assms by (simp add: disconnect_def wf_close_field)

lemma disconnect_same [simp]:
  "length (services (disconnect sid w)) = length (services w)"
  "timers (disconnect sid w) = timers w"
  "websocketService (disconnect sid w) = websocketService w"
  by (simp_all add: disconnect_def)

lemma wf_setCallbacks:
  assumes "wf_world w"
  shows "wf_world (setCallbacks sid cbs w)"
  unfolding setCallbacks_def using assms by (rule wf_upd_service) (simp add: service_ok_def)

lemma new_service_ok [simp]: "service_ok (new_service b a u)"
  by (simp add: new_service_def service_ok_def)

lemma wf_grow:
  assumes "wf_world w"
  shows "wf_world (w\<lparr> services := services w @ [new_service b a u],
                      websocketService := Some (length (services w)) \<rparr>)"
  using assms by (auto simp: wf_world_def less_Suc_eq)

lemma wf_initializeWebSocket:
  assumes "wf_world w"
  shows "wf_world (initializeWebSocket b a u cbs w)"
proof -
  let ?w1 = "case websocketService w of None \<Rightarrow> w | Some old \<Rightarrow> disconnect old w"
  have "wf_world ?w1" using assms by (simp add: wf_disconnect split: option.splits)
  then show ?thesis
    by (simp add: initializeWebSocket_def Let_def wf_setCallbacks wf_grow)
qed

lemma wf_disconnectWebSocket:
  assumes "wf_world w"
  shows "wf_world (disconnectWebSocket w)"
proof (cases "websocketService w")
  case None
  then show ?thesis using assms by (simp add: disconnectWebSocket_def)
next
  case (Some sid)
  have "wf_world (disconnect sid w)" using assms by (rule wf_disconnect)
  then have "wf_world ((disconnect sid w)\<lparr> websocketService := None \<rparr>)"
    by (simp add: wf_world_def)
  then show ?thesis using Some by (simp add: disconnectWebSocket_def)
qed

lemma wf_handleMessage:
  assumes "wf_world w"
  shows "wf_world (handleMessage pf sid data source w)"
  using assms by (simp add: handleMessage_def split: prod.splits outcome.splits)

lemma wf_owner:
  assumes "wf_world w" and "i < length (sockets w)"
  shows "owner (sockets w ! i) < length (services w)"
  using assms by (simp add: wf_world_def)

lemma wf_sock_open:
  assumes "wf_world w" and "i < length (sockets w)"
  shows "wf_world (sock_open pf i w)"
proof -
  let ?k = "sockets w ! i"
  let ?w1 = "upd_socket i (\<lambda>k. k\<lparr> readyState := OPEN \<rparr>) w"
  let ?w2 = "emit [Console Log (topic_title (topic ?k) @ '' WebSocket connected'')] ?w1"
  let ?w3 = "upd_socket i (\<lambda>k. k\<lparr> pending := False \<rparr>) ?w2"
  have own: "owner ?k < length (services w)" using assms by (rule wf_owner)
  have w2: "wf_world ?w2" using assms(1) by (simp add: wf_upd_socket)
  then have w3: "wf_world ?w3" by (simp add: wf_upd_socket)
  have "wf_world (connect_resume pf (owner ?k) (topic ?k) ?w3)"
    using w3 own by (intro wf_connect_resume) simp_all
  then show ?thesis using assms(1) w2 by (simp add: sock_open_def Let_def)
qed

lemma wf_sock_message:
  assumes "wf_world w"
  shows "wf_world (sock_message pf i data w)"
  using assms by (simp add: sock_message_def Let_def wf_handleMessage)

lemma wf_sock_error:
  assumes "wf_world w" and "i < length (sockets w)"
  shows "wf_world (sock_error i w)"
proof -
  let ?k = "sockets w ! i"
  let ?w1 = "emit [Console Error (topic_title (topic ?k) @ '' WebSocket error:'')] w"
  let ?w2 = "upd_socket i (\<lambda>k. k\<lparr> pending := False \<rparr>) ?w1"
  have own: "owner ?k < length (services w)" using assms by (rule wf_owner)
  have w2: "wf_world ?w2" using assms(1) by (simp add: wf_upd_socket)
  have "wf_world (connect_catch (owner ?k) ?w2)"
    using w2 own by (intro wf_connect_catch) simp_all
  then show ?thesis using assms(1) by (simp add: sock_error_def Let_def)
qed

lemma wf_sock_close:
  assumes "wf_world w" and "i < length (sockets w)"
  shows "wf_world (sock_close i w)"
proof -
  let ?k = "sockets w ! i"
  let ?w1 = "upd_socket i (\<lambda>k. k\<lparr> readyState := CLOSED \<rparr>) w"
  let ?w2 = "emit [Console Log (topic_title (topic ?k) @ '' WebSocket disconnected'')] ?w1"
  have own: "owner ?k < length (services w)" using assms by (rule wf_owner)
  have w2: "wf_world ?w2" using assms(1) by (simp add: wf_upd_socket)
  have a: "wf_world (scheduleReconnect (owner ?k) ?w2)"
    using w2 own by (intro wf_scheduleReconnect) simp_all
  have "wf_world (emit [Invoke OnDisconnect None] ?w2)" using w2 by simp
  then have b: "wf_world (scheduleReconnect (owner ?k) (emit [Invoke OnDisconnect None] ?w2))"
    using own by (intro wf_scheduleReconnect) simp_all
  show ?thesis
    using assms(1) w2 a b
    by (auto simp add: sock_close_def Let_def split: option.splits outcome.splits)
qed

lemma wf_drop_timer:
  assumes "wf_world w"
  shows "wf_world (w\<lparr> timers := take j (timers w) @ drop (Suc j) (timers w) \<rparr>)"
proof -
  have "set (take j (timers w) @ drop (Suc j) (timers w)) \<subseteq> set (timers w)"
    using set_take_subset [of j "timers w"] set_drop_subset [of "Suc j" "timers w"] by auto
  then show ?thesis using assms by (auto simp: wf_world_def)
qed

lemma wf_timer_fire:
  assumes "wf_world w"
  shows "wf_world (timer_fire pf j w)"
proof (cases "j < length (timers w)")
  case True
  then have "fst (timers w ! j) < length (services w)"
    using assms by (simp add: wf_world_def)
  then show ?thesis
    using True wf_drop_timer [OF assms, of j]
    by (simp add: timer_fire_def wf_connect)
next
  case False
  then show ?thesis using assms by (simp add: timer_fire_def)
qed

lemma wf_step:
  assumes "wf_world w"
  shows "wf_world (step pf e w)"
  using assms
  by (cases e)
     (simp_all add: wf_initializeWebSocket wf_disconnectWebSocket wf_connect wf_disconnect
        wf_setCallbacks wf_sendMessage ping_def subscribeToTransactions_def getWalletStatus_def
        subscribeToBotUpdates_def wf_sock_open wf_sock_message wf_sock_error wf_sock_close
        wf_timer_fire)

lemma wf_init [simp]: "wf_world init_world"
  by (simp add: wf_world_def init_world_def)

lemma run_snoc: "run pf (es @ [e]) w = step pf e (run pf es w)"
  by (simp add: run_def)

lemma wf_run:
  assumes "wf_world w"
  shows "wf_world (run pf es w)"
  using assms
proof (induction es rule: rev_induct)
  case Nil
  then show ?case by (simp add: run_def)
next
  case (snoc e es)
  then show ?case by (simp add: run_snoc wf_step)
qed

subsection \<open>The backoff schedule\<close>

lemma fresh_world_eq:
  "fresh_world =
     \<lparr> services = [(new_service ''http://localhost:8000'' ''tok'' ''u1'')\<lparr> callbacks := no_callbacks \<rparr>],
       sockets = [], timers = [], websocketService = Some 0, trace = [] \<rparr>"
  by (simp add: fresh_world_def initializeWebSocket_def init_world_def setCallbacks_def upd_service_def)






subsection \<open>Evaluating the concrete worlds\<close>

lemma show_nat_numeral [simp]:
  "show_nat (numeral k) =
     (if numeral k < (10::nat) then [digit_char (numeral k)]
      else show_nat (numeral k div 10) @ [digit_char (numeral k mod 10)])"
  by (rule show_nat.simps)

lemma show_nat_one [simp]: "show_nat 1 = ''1''" "show_nat (Suc 0) = ''1''" "show_nat 0 = ''0''"
  by (simp_all add: show_nat.simps digit_char_def)

lemmas eval_defs =
  run_def initializeWebSocket_def init_world_def setCallbacks_def upd_service_def upd_socket_def
  new_service_def connect_def connect_await_def connectChannel_def connect_catch_def
  scheduleReconnect_def emit_def Let_def test_platform_def ws_url_def sock_error_def
  sock_close_def sock_open_def timer_fire_def no_callbacks_def disconnect_def close_field_def
  ws_close_def digit_char_def

lemma closed_wallet_world_eq:
  "closed_wallet_world =
     \<lparr> services =
         [\<lparr> walletSocket = Some 0, botsSocket = Some 1, notificationsSocket = Some 2,
            reconnectAttempts = 1, maxReconnectAttempts = 5, reconnectDelay = 1000,
            callbacks = no_callbacks, isConnecting = False,
            baseUrl = ''http://localhost:8000'', authToken = ''tok'', userId = ''u1'' \<rparr>],
       sockets =
         [\<lparr> owner = 0, topic = Wallet, url = ''ws://localhost:8000/ws/wallet/u1?token=tok'',
            readyState = CLOSED, pending = False, sent = [] \<rparr>,
          \<lparr> owner = 0, topic = Bots, url = ''ws://localhost:8000/ws/bots/u1?token=tok'',
            readyState = OPEN, pending = False, sent = [] \<rparr>,
          \<lparr> owner = 0, topic = Notifications,
            url = ''ws://localhost:8000/ws/notifications/u1?token=tok'',
            readyState = OPEN, pending = False, sent = [] \<rparr>],
       timers = [(0, 1000)], websocketService = Some 0,
       trace =
         [Console Log ''Wallet WebSocket connected'',
          Console Log ''Bots WebSocket connected'',
          Console Log ''Notifications WebSocket connected'',
          Console Log ''All WebSocket connections established'',
          ConnectSettled 0 Fulfilled,
          Console Log ''Wallet WebSocket disconnected'',
          Console Log ''Scheduling WebSocket reconnect in 1000ms (attempt 1)''] \<rparr>"
  by (simp add: closed_wallet_world_def eval_defs)

subsection \<open>Sending on a channel that is not open\<close>

text \<open>
  C7. For every payload and topic, \<open>sendMessage\<close> on a channel whose socket field is null
  or whose socket is not in the state \<open>OPEN\<close> only records the warning: instances,
  sockets (with what was sent on them), timers and the singleton are unchanged, and the
  call completes. The same holds for \<open>ping\<close>.
\<close>

theorem send_when_not_open:
  assumes "\<not> socket_open w (socket_field t (services w ! sid))"
  shows "sendMessage pf sid payload t w =
           w\<lparr> trace := trace w @ [Console Warn (''WebSocket '' @ topic_name t @ '' is not connected'')] \<rparr>
       \<and> ping pf sid t w =
           w\<lparr> trace := trace w @ [Console Warn (''WebSocket '' @ topic_name t @ '' is not connected'')] \<rparr>"
  using assms
  by (auto simp: sendMessage_def ping_def socket_open_def emit_def split: option.splits)

theorem send_when_not_open_witness:
  "\<not> socket_open closed_wallet_world (socket_field Wallet (services closed_wallet_world ! 0))
   \<and> sendMessage (test_platform (\<lambda>s. None)) 0 (JObj [(''type'', JStr ''ping'')]) Wallet
         closed_wallet_world =
       closed_wallet_world\<lparr> trace := trace closed_wallet_world @
         [Console Warn ''WebSocket wallet is not connected''] \<rparr>
   \<and> sendMessage (test_platform (\<lambda>s. None)) 0 (JObj [(''type'', JStr ''ping'')]) Wallet
         fresh_world =
       fresh_world\<lparr> trace := [Console Warn ''WebSocket wallet is not connected''] \<rparr>"
proof -
  have h: "\<not> socket_open closed_wallet_world (socket_field Wallet (services closed_wallet_world ! 0))"
    by (simp add: closed_wallet_world_eq socket_open_def)
  have g: "\<not> socket_open fresh_world (socket_field Wallet (services fresh_world ! 0))"
    by (simp add: fresh_world_eq socket_open_def new_service_def)
  have t: "trace fresh_world = []" by (simp add: fresh_world_eq)
  show ?thesis
    using h send_when_not_open [OF h, of "test_platform (\<lambda>s. None)" "JObj [(''type'', JStr ''ping'')]"]
      send_when_not_open [OF g, of "test_platform (\<lambda>s. None)" "JObj [(''type'', JStr ''ping'')]"] t
    by simp
qed

subsection \<open>Dispatch of inbound envelopes\<close>

lemma get_prop_total:
  assumes "get_prop (Some m) k = Some x"
  shows "\<exists>y. get_prop (Some m) k' = Some y"
  using assms by (cases m) simp_all

lemma dispatch_unknown:
  assumes "\<forall>name \<in> set recognized_types. ty \<noteq> Some (JStr name)"
  shows "dispatch pf cbs ty d = ([Console Log ''Unknown WebSocket message type:''], Returns)"
  using assms by (simp add: dispatch_def recognized_types_def)

text \<open>
  C5. An inbound frame that parses to a message whose \<open>type\<close> is none of the seven
  recognized labels (it may be missing or not a string) runs the \<open>try\<close> block to completion
  without a throw; the block only writes the two console lines, so no registered callback
  is invoked, and \<open>handleMessage\<close> leaves the world unchanged apart from those two lines.
\<close>

theorem unknown_type_dropped:
  assumes "json_parse pf data = Some message"
    and "get_prop (Some message) ''type'' = Some ty"
    and "\<forall>name \<in> set recognized_types. ty \<noteq> Some (JStr name)"
  shows "handleMessage_try pf cbs data source =
           ([Console Log (''WebSocket message from '' @ source @ '':''),
             Console Log ''Unknown WebSocket message type:''], Returns)
       \<and> handleMessage pf sid data source w =
           w\<lparr> trace := trace w @
                 [Console Log (''WebSocket message from '' @ source @ '':''),
                  Console Log ''Unknown WebSocket message type:''] \<rparr>
       \<and> invocations (trace (handleMessage pf sid data source w)) = invocations (trace w)
       \<and> toasts (trace (handleMessage pf sid data source w)) = toasts (trace w)"
proof -
  obtain d where d: "get_prop (Some message) ''data'' = Some d"
    using get_prop_total [OF assms(2)] by blast
  have t: "\<And>cbs. handleMessage_try pf cbs data source =
           ([Console Log (''WebSocket message from '' @ source @ '':''),
             Console Log ''Unknown WebSocket message type:''], Returns)"
    using assms(1,2) d dispatch_unknown [OF assms(3)]
    by (simp add: handleMessage_try_def and_then_def)
  have h: "handleMessage pf sid data source w =
           w\<lparr> trace := trace w @
                 [Console Log (''WebSocket message from '' @ source @ '':''),
                  Console Log ''Unknown WebSocket message type:''] \<rparr>"
    by (simp add: handleMessage_def t emit_def)
  show ?thesis
    using t h by (simp add: invocations_def toasts_def)
qed

theorem unknown_type_dropped_witness:
  "handleMessage (test_platform (\<lambda>s. Some (JObj [(''type'', JStr ''price_tick''), (''data'', JObj [])])))
     0 ''{}'' ''wallet'' fresh_world =
   fresh_world\<lparr> trace := [Console Log ''WebSocket message from wallet:'',
                            Console Log ''Unknown WebSocket message type:''] \<rparr>
   \<and> handleMessage (test_platform (\<lambda>s. Some (JNum 7))) 0 ''7'' ''bots'' fresh_world =
   fresh_world\<lparr> trace := [Console Log ''WebSocket message from bots:'',
                            Console Log ''Unknown WebSocket message type:''] \<rparr>"
proof -
  let ?m = "JObj [(''type'', JStr ''price_tick''), (''data'', JObj [])] :: int json"
  have p: "json_parse (test_platform (\<lambda>s. Some ?m)) ''{}'' = Some ?m"
    by (simp add: test_platform_def)
  have g: "get_prop (Some ?m) ''type'' = Some (Some (JStr ''price_tick''))" by simp
  have u: "\<forall>name \<in> set recognized_types. Some (JStr ''price_tick'' :: int json) \<noteq> Some (JStr name)"
    by (simp add: recognized_types_def)
  have p2: "json_parse (test_platform (\<lambda>s. Some (JNum 7))) ''7'' = Some (JNum 7)"
    by (simp add: test_platform_def)
  have g2: "get_prop (Some (JNum 7 :: int json)) ''type'' = Some None" by simp
  have u2: "\<forall>name \<in> set recognized_types. (None :: int json option) \<noteq> Some (JStr name)"
    by simp
  have t: "trace fresh_world = []" by (simp add: fresh_world_eq)
  show ?thesis
    using unknown_type_dropped [OF p g u, of no_callbacks "''wallet''" 0 fresh_world]
      unknown_type_dropped [OF p2 g2 u2, of no_callbacks "''bots''" 0 fresh_world] t
    by simp
qed



lemma group_digits_numeral [simp]:
  "group_digits (numeral k) =
     (if numeral k < (1000::nat) then show_nat (numeral k)
      else group_digits (numeral k div 1000) @ '','' @
           [digit_char (numeral k mod 1000 div 100), digit_char (numeral k mod 100 div 10),
            digit_char (numeral k mod 10)])"
  by (rule group_digits.simps)

lemma group_digits_small [simp]: "group_digits 0 = ''0''" "group_digits (Suc 0) = ''1''"
  by (simp_all add: group_digits.simps [of 0] group_digits.simps [of "Suc 0"])







subsection \<open>Which operations emit which effects\<close>

lemma benign_onDisconnect [simp]: "benign is_onDisconnect"
  by (simp add: benign_def)

lemma benign_rejected [simp]: "benign is_rejected"
  by (simp add: benign_def)

lemma filter_emit [simp]: "filter P (trace (emit es w)) = filter P (trace w) @ filter P es"
  by simp

lemma quiet_scheduleReconnect:
  assumes "benign P"
  shows "filter P (trace (scheduleReconnect sid w)) = filter P (trace w)"
  using assms by (simp add: scheduleReconnect_def Let_def benign_def)

lemma quiet_connect_catch:
  assumes "benign P"
  shows "filter P (trace (connect_catch sid w)) = filter P (trace w)"
  using assms quiet_scheduleReconnect [OF assms]
  by (simp add: connect_catch_def benign_def)

lemma connectChannel_trace [simp]: "trace (fst (connectChannel pf sid t w)) = trace w"
  by (simp add: connectChannel_def Let_def)

lemma quiet_connect_await:
  assumes "benign P"
  shows "filter P (trace (connect_await pf sid t w)) = filter P (trace w)"
proof (cases "connectChannel pf sid t w")
  case (Pair w1 b)
  then have "trace w1 = trace w" using connectChannel_trace [of pf sid t w] by simp
  then show ?thesis
    using Pair quiet_connect_catch [OF assms, of sid w1]
    by (cases b) (simp_all add: connect_await_def)
qed

lemma quiet_connect_resume:
  assumes "benign P"
  shows "filter P (trace (connect_resume pf sid t w)) = filter P (trace w)"
  using assms quiet_connect_await [OF assms]
  by (cases t) (simp_all add: benign_def)

lemma quiet_connect:
  assumes "benign P"
  shows "filter P (trace (connect pf sid w)) = filter P (trace w)"
  using assms quiet_connect_await [OF assms]
  by (simp add: connect_def benign_def)

lemma quiet_sendMessage:
  assumes "benign P"
  shows "filter P (trace (sendMessage pf sid m t w)) = filter P (trace w)"
  using assms by (simp add: sendMessage_def benign_def split: option.splits)

lemma quiet_disconnect:
  assumes "benign P"
  shows "filter P (trace (disconnect sid w)) = filter P (trace w)"
  using assms by (simp add: disconnect_def benign_def)

lemma quiet_initializeWebSocket:
  assumes "benign P"
  shows "filter P (trace (initializeWebSocket b a u cbs w)) = filter P (trace w)"
  using quiet_disconnect [OF assms]
  by (simp add: initializeWebSocket_def Let_def setCallbacks_def split: option.splits)

lemma quiet_disconnectWebSocket:
  assumes "benign P"
  shows "filter P (trace (disconnectWebSocket w)) = filter P (trace w)"
  using quiet_disconnect [OF assms]
  by (simp add: disconnectWebSocket_def split: option.splits)

lemma call_cb_effects:
  assumes "benign P" and "k \<noteq> OnDisconnect"
  shows "filter P (fst (call_cb k cb arg)) = []"
  using assms by (cases cb) (simp_all add: call_cb_def benign_def)

lemma and_then_effects:
  assumes "filter P (fst a) = []" and "filter P (fst b) = []"
  shows "filter P (fst (and_then a b)) = []"
  using assms by (cases a; cases "snd a") (auto simp: and_then_def)

lemma on_transaction_effects:
  assumes "benign P"
  shows "filter P (fst (on_transaction pf cbs d)) = []"
  unfolding on_transaction_def
  by (rule and_then_effects)
     (use assms in \<open>auto simp: call_cb_effects benign_def split: option.splits\<close>)

lemma on_system_effects:
  assumes "benign P"
  shows "filter P (fst (on_system pf cbs d)) = []"
  unfolding on_system_def
  by (rule and_then_effects)
     (use assms in \<open>auto simp: call_cb_effects benign_def Let_def split: option.splits\<close>)

lemma on_error_effects:
  assumes "benign P"
  shows "filter P (fst (on_error pf cbs d)) = []"
  unfolding on_error_def
  by (rule and_then_effects)
     (use assms in \<open>auto simp: call_cb_effects benign_def split: option.splits\<close>)

lemma dispatch_effects:
  assumes "benign P"
  shows "filter P (fst (dispatch pf cbs ty d)) = []"
  using assms on_transaction_effects [OF assms] on_system_effects [OF assms]
    on_error_effects [OF assms]
  by (simp add: dispatch_def call_cb_effects benign_def)

lemma handleMessage_try_effects:
  assumes "benign P"
  shows "filter P (fst (handleMessage_try pf cbs data source)) = []"
proof (cases "json_parse pf data")
  case None
  then show ?thesis by (simp add: handleMessage_try_def)
next
  case (Some message)
  have "filter P (fst (and_then ([Console Log (''WebSocket message from '' @ source @ '':'')], Returns)
            (case get_prop (Some message) ''type'' of
               None \<Rightarrow> ([], Throws)
             | Some ty \<Rightarrow>
                 (case get_prop (Some message) ''data'' of
                    None \<Rightarrow> ([], Throws)
                  | Some d \<Rightarrow> dispatch pf cbs ty d)))) = []"
    by (rule and_then_effects)
       (use assms in \<open>auto simp: dispatch_effects benign_def split: option.splits\<close>)
  then show ?thesis using Some by (simp add: handleMessage_try_def)
qed

lemma quiet_handleMessage:
  assumes "benign P"
  shows "filter P (trace (handleMessage pf sid data source w)) = filter P (trace w)"
proof (cases "handleMessage_try pf (callbacks (services w ! sid)) data source")
  case (Pair es r)
  then have "filter P es = []"
    using handleMessage_try_effects [OF assms, of pf "callbacks (services w ! sid)" data source]
    by simp
  then show ?thesis
    using Pair assms by (cases r) (simp_all add: handleMessage_def benign_def)
qed

lemma quiet_sock_open:
  assumes "benign P"
  shows "filter P (trace (sock_open pf i w)) = filter P (trace w)"
  using assms quiet_connect_resume [OF assms]
  by (simp add: sock_open_def Let_def benign_def)

lemma quiet_sock_message:
  assumes "benign P"
  shows "filter P (trace (sock_message pf i data w)) = filter P (trace w)"
  using quiet_handleMessage [OF assms] by (simp add: sock_message_def Let_def)

lemma quiet_sock_error:
  assumes "benign P"
  shows "filter P (trace (sock_error i w)) = filter P (trace w)"
  using assms quiet_connect_catch [OF assms]
  by (simp add: sock_error_def Let_def benign_def)

lemma quiet_timer_fire:
  assumes "benign P"
  shows "filter P (trace (timer_fire pf j w)) = filter P (trace w)"
  using quiet_connect [OF assms] by (simp add: timer_fire_def)

text \<open>The only handler that may emit \<open>Invoke OnDisconnect\<close> is the wallet socket's \<open>onclose\<close>.\<close>

lemma sock_close_effects:
  assumes "benign P"
  shows "filter P (trace (sock_close i w)) =
           filter P (trace w) @
             (if readyState (sockets w ! i) \<noteq> CLOSED \<and> topic (sockets w ! i) = Wallet
                 \<and> onDisconnect (callbacks (services w ! owner (sockets w ! i))) \<noteq> None
              then filter P [Invoke OnDisconnect None] else [])"
  using assms quiet_scheduleReconnect [OF assms]
  by (auto simp: sock_close_def Let_def benign_def split: option.splits outcome.splits)

lemma quiet_step:
  assumes "benign P" and "\<not> P (Invoke OnDisconnect None)"
  shows "filter P (trace (step pf e w)) = filter P (trace w)"
  using assms
  by (cases e)
     (simp_all add: quiet_initializeWebSocket quiet_disconnectWebSocket quiet_connect
        quiet_disconnect setCallbacks_def quiet_sendMessage ping_def subscribeToTransactions_def
        getWalletStatus_def subscribeToBotUpdates_def quiet_sock_open quiet_sock_message
        quiet_sock_error sock_close_effects quiet_timer_fire)

lemma open_world_eq:
  "open_world =
     \<lparr> services =
         [\<lparr> walletSocket = Some 0, botsSocket = Some 1, notificationsSocket = Some 2,
            reconnectAttempts = 0, maxReconnectAttempts = 5, reconnectDelay = 1000,
            callbacks = watching_callbacks, isConnecting = False,
            baseUrl = ''http://localhost:8000'', authToken = ''tok'', userId = ''u1'' \<rparr>],
       sockets =
         [\<lparr> owner = 0, topic = Wallet, url = ''ws://localhost:8000/ws/wallet/u1?token=tok'',
            readyState = OPEN, pending = False, sent = [] \<rparr>,
          \<lparr> owner = 0, topic = Bots, url = ''ws://localhost:8000/ws/bots/u1?token=tok'',
            readyState = OPEN, pending = False, sent = [] \<rparr>,
          \<lparr> owner = 0, topic = Notifications,
            url = ''ws://localhost:8000/ws/notifications/u1?token=tok'',
            readyState = OPEN, pending = False, sent = [] \<rparr>],
       timers = [], websocketService = Some 0,
       trace =
         [Console Log ''Wallet WebSocket connected'',
          Console Log ''Bots WebSocket connected'',
          Console Log ''Notifications WebSocket connected'',
          Console Log ''All WebSocket connections established'',
          ConnectSettled 0 Fulfilled] \<rparr>"
  by (simp add: open_world_def eval_defs)

lemma quiet_step_other:
  assumes "benign P" and "\<forall>i. e \<noteq> SockClose i"
  shows "filter P (trace (step pf e w)) = filter P (trace w)"
  using assms
  by (cases e)
     (simp_all add: quiet_initializeWebSocket quiet_disconnectWebSocket quiet_connect
        quiet_disconnect setCallbacks_def quiet_sendMessage ping_def subscribeToTransactions_def
        getWalletStatus_def subscribeToBotUpdates_def quiet_sock_open quiet_sock_message
        quiet_sock_error quiet_timer_fire)

subsection \<open>Who hears of a disconnect\<close>

text \<open>
  C10. An event changes the \<open>onDisconnect\<close> invocations in the trace only if it is the
  close of a wallet socket. The close of a bots or notifications socket is exactly a call
  of \<open>scheduleReconnect\<close> of the owning instance (after the log line), which below the cap
  schedules the timer that reconnects the whole group, and it invokes no \<open>onDisconnect\<close>.
  The close of a wallet socket whose instance has \<open>onDisconnect\<close> registered invokes it
  once.
\<close>

theorem onDisconnect_only_on_wallet_close:
  "(filter is_onDisconnect (trace (step pf e w)) \<noteq> filter is_onDisconnect (trace w) \<longrightarrow>
      (\<exists>i. e = SockClose i \<and> i < length (sockets w) \<and> topic (sockets w ! i) = Wallet
           \<and> readyState (sockets w ! i) \<noteq> CLOSED))
   \<and> (\<forall>i. i < length (sockets w) \<and> topic (sockets w ! i) \<noteq> Wallet
          \<and> readyState (sockets w ! i) \<noteq> CLOSED \<longrightarrow>
        step pf (SockClose i) w =
          scheduleReconnect (owner (sockets w ! i))
            (emit [Console Log (topic_title (topic (sockets w ! i)) @ '' WebSocket disconnected'')]
               (upd_socket i (\<lambda>k. k\<lparr> readyState := CLOSED \<rparr>) w))
        \<and> filter is_onDisconnect (trace (step pf (SockClose i) w)) =
            filter is_onDisconnect (trace w)
        \<and> (reconnectAttempts (services w ! owner (sockets w ! i))
              < maxReconnectAttempts (services w ! owner (sockets w ! i)) \<longrightarrow>
            timers (step pf (SockClose i) w) =
              timers w @ [(owner (sockets w ! i),
                           reconnectDelay (services w ! owner (sockets w ! i))
                             * 2 ^ reconnectAttempts (services w ! owner (sockets w ! i)))]))
   \<and> (\<forall>i. i < length (sockets w) \<and> topic (sockets w ! i) = Wallet
          \<and> readyState (sockets w ! i) \<noteq> CLOSED
          \<and> onDisconnect (callbacks (services w ! owner (sockets w ! i))) \<noteq> None \<longrightarrow>
        filter is_onDisconnect (trace (step pf (SockClose i) w)) =
          filter is_onDisconnect (trace w) @ [Invoke OnDisconnect None])"
proof (intro conjI allI impI)
  assume ch: "filter is_onDisconnect (trace (step pf e w)) \<noteq> filter is_onDisconnect (trace w)"
  show "\<exists>i. e = SockClose i \<and> i < length (sockets w) \<and> topic (sockets w ! i) = Wallet
           \<and> readyState (sockets w ! i) \<noteq> CLOSED"
  proof (rule ccontr)
    assume n: "\<not> (\<exists>i. e = SockClose i \<and> i < length (sockets w) \<and> topic (sockets w ! i) = Wallet
           \<and> readyState (sockets w ! i) \<noteq> CLOSED)"
    have "filter is_onDisconnect (trace (step pf e w)) = filter is_onDisconnect (trace w)"
    proof (cases "\<exists>i. e = SockClose i")
      case True
      then obtain i where e: "e = SockClose i" by blast
      show ?thesis
        using n e sock_close_effects [of is_onDisconnect i w] by auto
    next
      case False
      then show ?thesis by (intro quiet_step_other) simp_all
    qed
    then show False using ch by simp
  qed
next
  fix i
  assume a: "i < length (sockets w) \<and> topic (sockets w ! i) \<noteq> Wallet
          \<and> readyState (sockets w ! i) \<noteq> CLOSED"
  let ?k = "sockets w ! i"
  let ?w2 = "emit [Console Log (topic_title (topic ?k) @ '' WebSocket disconnected'')]
               (upd_socket i (\<lambda>k. k\<lparr> readyState := CLOSED \<rparr>) w)"
  show eq: "step pf (SockClose i) w = scheduleReconnect (owner ?k) ?w2"
    using a by (simp add: sock_close_def Let_def)
  show "filter is_onDisconnect (trace (step pf (SockClose i) w)) = filter is_onDisconnect (trace w)"
    using a sock_close_effects [of is_onDisconnect i w] by simp
  assume lt: "reconnectAttempts (services w ! owner ?k) < maxReconnectAttempts (services w ! owner ?k)"
  then have "reconnectAttempts (services ?w2 ! owner ?k) < maxReconnectAttempts (services ?w2 ! owner ?k)"
    by simp
  from scheduleReconnect_under(2) [OF this]
  show "timers (step pf (SockClose i) w) =
          timers w @ [(owner ?k, reconnectDelay (services w ! owner ?k)
                                   * 2 ^ reconnectAttempts (services w ! owner ?k))]"
    using eq by simp
next
  fix i
  assume a: "i < length (sockets w) \<and> topic (sockets w ! i) = Wallet
          \<and> readyState (sockets w ! i) \<noteq> CLOSED
          \<and> onDisconnect (callbacks (services w ! owner (sockets w ! i))) \<noteq> None"
  show "filter is_onDisconnect (trace (step pf (SockClose i) w)) =
          filter is_onDisconnect (trace w) @ [Invoke OnDisconnect None]"
    using a sock_close_effects [of is_onDisconnect i w] by simp
qed

theorem onDisconnect_only_on_wallet_close_witness:
  "filter is_onDisconnect (trace (step (test_platform (\<lambda>s. None)) (SockClose 1) open_world)) = []
   \<and> timers (step (test_platform (\<lambda>s. None)) (SockClose 1) open_world) = [(0, 1000)]
   \<and> filter is_onDisconnect (trace (step (test_platform (\<lambda>s. None)) (SockClose 2) open_world)) = []
   \<and> filter is_onDisconnect (trace (step (test_platform (\<lambda>s. None)) (SockClose 0) open_world)) =
       [Invoke OnDisconnect None]"
proof -
  have s: "length (sockets open_world) = 3"
      "topic (sockets open_world ! 0) = Wallet" "readyState (sockets open_world ! 0) = OPEN"
      "topic (sockets open_world ! 1) = Bots" "readyState (sockets open_world ! 1) = OPEN"
      "topic (sockets open_world ! 2) = Notifications" "readyState (sockets open_world ! 2) = OPEN"
      "owner (sockets open_world ! 0) = 0" "owner (sockets open_world ! 1) = 0"
      "onDisconnect (callbacks (services open_world ! 0)) = Some Returns"
      "reconnectAttempts (services open_world ! 0) = 0"
      "maxReconnectAttempts (services open_world ! 0) = 5"
      "reconnectDelay (services open_world ! 0) = 1000"
      "timers open_world = []"
      "filter is_onDisconnect (trace open_world) = []"
    by (simp_all add: open_world_eq watching_callbacks_def)
  let ?tp = "test_platform (\<lambda>s. None)"
  note T = onDisconnect_only_on_wallet_close [of ?tp "SockClose 1" open_world]
  have h1: "1 < length (sockets open_world) \<and> topic (sockets open_world ! 1) \<noteq> Wallet
          \<and> readyState (sockets open_world ! 1) \<noteq> CLOSED"
    and h2: "2 < length (sockets open_world) \<and> topic (sockets open_world ! 2) \<noteq> Wallet
          \<and> readyState (sockets open_world ! 2) \<noteq> CLOSED"
    and h0: "0 < length (sockets open_world) \<and> topic (sockets open_world ! 0) = Wallet
          \<and> readyState (sockets open_world ! 0) \<noteq> CLOSED
          \<and> onDisconnect (callbacks (services open_world ! owner (sockets open_world ! 0))) \<noteq> None"
    using s by simp_all
  have lt: "reconnectAttempts (services open_world ! owner (sockets open_world ! 1))
              < maxReconnectAttempts (services open_world ! owner (sockets open_world ! 1))"
    using s by simp
  have a1: "filter is_onDisconnect (trace (step ?tp (SockClose 1) open_world)) =
              filter is_onDisconnect (trace open_world)"
    and a2: "timers (step ?tp (SockClose 1) open_world) =
              timers open_world @ [(owner (sockets open_world ! 1),
                 reconnectDelay (services open_world ! owner (sockets open_world ! 1))
                   * 2 ^ reconnectAttempts (services open_world ! owner (sockets open_world ! 1)))]"
    and a3: "filter is_onDisconnect (trace (step ?tp (SockClose 2) open_world)) =
              filter is_onDisconnect (trace open_world)"
    and a4: "filter is_onDisconnect (trace (step ?tp (SockClose 0) open_world)) =
              filter is_onDisconnect (trace open_world) @ [Invoke OnDisconnect None]"
    using T h1 h2 h0 lt by blast+
  show ?thesis
    using a1 a2 a3 a4 s by simp
qed

subsection \<open>The path of connect through its three awaits\<close>

lemma ws_url_set_socket_field [simp]: "ws_url (set_socket_field t v s) tt = ws_url s tt"
  by (cases t) (simp_all add: ws_url_def)

lemma socket_field_set [simp]: "socket_field t (set_socket_field t v s) = v"
  by (cases t) simp_all

lemma set_socket_field_keeps [simp]:
  "reconnectAttempts (set_socket_field t v s) = reconnectAttempts s"
  "maxReconnectAttempts (set_socket_field t v s) = maxReconnectAttempts s"
  "reconnectDelay (set_socket_field t v s) = reconnectDelay s"
  "isConnecting (set_socket_field t v s) = isConnecting s"
  "callbacks (set_socket_field t v s) = callbacks s"
  by (cases t; simp)+

lemma connect_await_accept:
  assumes "url_accepted pf (ws_url (services w ! sid) t)"
  shows "connect_await pf sid t w =
           upd_service sid (set_socket_field t (Some (length (sockets w))))
             (w\<lparr> sockets := sockets w @
                  [\<lparr> owner = sid, topic = t, url = ws_url (services w ! sid) t,
                     readyState = CONNECTING, pending = True, sent = [] \<rparr>] \<rparr>)"
  using assms by (simp add: connect_await_def connectChannel_def Let_def)

lemma connect_await_accept_props:
  assumes "url_accepted pf (ws_url (services w ! sid) t)" and "sid < length (services w)"
  shows "awaiting (connect_await pf sid t w) sid t (length (sockets w))"
    and "trace (connect_await pf sid t w) = trace w"
    and "timers (connect_await pf sid t w) = timers w"
    and "length (sockets (connect_await pf sid t w)) = Suc (length (sockets w))"
    and "reconnectAttempts (services (connect_await pf sid t w) ! sid) = reconnectAttempts (services w ! sid)"
    and "isConnecting (services (connect_await pf sid t w) ! sid) = isConnecting (services w ! sid)"
    and "ws_url (services (connect_await pf sid t w) ! sid) tt = ws_url (services w ! sid) tt"
    and "socket_field t (services (connect_await pf sid t w) ! sid) = Some (length (sockets w))"
  using assms(2) unfolding connect_await_accept [OF assms(1)]
  by (simp_all add: awaiting_def)

lemma connect_await_refuse:
  assumes "\<not> url_accepted pf (ws_url (services w ! sid) t)"
  shows "connect_await pf sid t w = connect_catch sid w"
  using assms by (simp add: connect_await_def connectChannel_def Let_def)

lemma sock_open_awaiting:
  assumes "awaiting w sid t i"
  shows "sock_open pf i w =
           connect_resume pf sid t
             (upd_socket i (\<lambda>k. k\<lparr> pending := False \<rparr>)
                (emit [Console Log (topic_title t @ '' WebSocket connected'')]
                   (upd_socket i (\<lambda>k. k\<lparr> readyState := OPEN \<rparr>) w)))"
  using assms by (simp add: sock_open_def Let_def awaiting_def)

lemma sock_open_next:
  assumes aw: "awaiting w sid t i" and sid: "sid < length (services w)"
    and nxt: "(t = Wallet \<and> t' = Bots) \<or> (t = Bots \<and> t' = Notifications)"
    and url: "url_accepted pf (ws_url (services w ! sid) t')"
  shows "awaiting (sock_open pf i w) sid t' (length (sockets w))"
    and "trace (sock_open pf i w) = trace w @ [Console Log (topic_title t @ '' WebSocket connected'')]"
    and "timers (sock_open pf i w) = timers w"
    and "length (sockets (sock_open pf i w)) = Suc (length (sockets w))"
    and "length (services (sock_open pf i w)) = length (services w)"
    and "reconnectAttempts (services (sock_open pf i w) ! sid) = reconnectAttempts (services w ! sid)"
    and "isConnecting (services (sock_open pf i w) ! sid) = isConnecting (services w ! sid)"
    and "ws_url (services (sock_open pf i w) ! sid) tt = ws_url (services w ! sid) tt"
    and "readyState (sockets (sock_open pf i w) ! i) = OPEN"
proof -
  let ?w3 = "upd_socket i (\<lambda>k. k\<lparr> pending := False \<rparr>)
                (emit [Console Log (topic_title t @ '' WebSocket connected'')]
                   (upd_socket i (\<lambda>k. k\<lparr> readyState := OPEN \<rparr>) w))"
  have eq: "sock_open pf i w = connect_await pf sid t' ?w3"
    using sock_open_awaiting [OF aw, of pf] nxt by auto
  have url3: "url_accepted pf (ws_url (services ?w3 ! sid) t')" using url by simp
  have sid3: "sid < length (services ?w3)" using sid by simp
  note p = connect_await_accept_props [OF url3 sid3]
  show "awaiting (sock_open pf i w) sid t' (length (sockets w))"
    using p(1) eq by simp
  show "trace (sock_open pf i w) = trace w @ [Console Log (topic_title t @ '' WebSocket connected'')]"
    using p(2) eq by simp
  show "timers (sock_open pf i w) = timers w" using p(3) eq by simp
  show "length (sockets (sock_open pf i w)) = Suc (length (sockets w))" using p(4) eq by simp
  show "length (services (sock_open pf i w)) = length (services w)" by (simp add: eq)
  show "reconnectAttempts (services (sock_open pf i w) ! sid) = reconnectAttempts (services w ! sid)"
    using p(5) eq by simp
  show "isConnecting (services (sock_open pf i w) ! sid) = isConnecting (services w ! sid)"
    using p(6) eq by simp
  show "ws_url (services (sock_open pf i w) ! sid) tt = ws_url (services w ! sid) tt"
    using p(7) eq by simp
  have "i < length (sockets w)" using aw by (simp add: awaiting_def)
  then show "readyState (sockets (sock_open pf i w) ! i) = OPEN"
    unfolding eq connect_await_accept [OF url3]
    by (simp add: nth_append)
qed

lemma sock_open_last:
  assumes aw: "awaiting w sid Notifications i" and sid: "sid < length (services w)"
  shows "trace (sock_open pf i w) =
           trace w @ [Console Log ''Notifications WebSocket connected'',
                      Console Log ''All WebSocket connections established'',
                      ConnectSettled sid Fulfilled]"
    and "reconnectAttempts (services (sock_open pf i w) ! sid) = 0"
    and "isConnecting (services (sock_open pf i w) ! sid) = False"
    and "timers (sock_open pf i w) = timers w"
    and "length (sockets (sock_open pf i w)) = length (sockets w)"
    and "readyState (sockets (sock_open pf i w) ! i) = OPEN"
  using sid aw unfolding sock_open_awaiting [OF aw] 
  by (simp_all add: awaiting_def)

lemma connect_start:
  assumes sid: "sid < length (services w)" and idle: "\<not> isConnecting (services w ! sid)"
    and url: "url_accepted pf (ws_url (services w ! sid) Wallet)"
  shows "awaiting (connect pf sid w) sid Wallet (length (sockets w))"
    and "trace (connect pf sid w) = trace w"
    and "timers (connect pf sid w) = timers w"
    and "length (sockets (connect pf sid w)) = Suc (length (sockets w))"
    and "reconnectAttempts (services (connect pf sid w) ! sid) = reconnectAttempts (services w ! sid)"
    and "isConnecting (services (connect pf sid w) ! sid)"
    and "ws_url (services (connect pf sid w) ! sid) tt = ws_url (services w ! sid) tt"
    and "walletSocket (services (connect pf sid w) ! sid) = Some (length (sockets w))"
proof -
  let ?w1 = "upd_service sid (\<lambda>s. s\<lparr> isConnecting := True \<rparr>) w"
  have eq: "connect pf sid w = connect_await pf sid Wallet ?w1"
    using idle by (simp add: connect_def)
  have u: "\<And>tt. ws_url (services ?w1 ! sid) tt = ws_url (services w ! sid) tt"
    using sid by (simp add: ws_url_def)
  have url1: "url_accepted pf (ws_url (services ?w1 ! sid) Wallet)" using url u by simp
  have sid1: "sid < length (services ?w1)" using sid by simp
  note p = connect_await_accept_props [OF url1 sid1]
  show "awaiting (connect pf sid w) sid Wallet (length (sockets w))" using p(1) eq by simp
  show "trace (connect pf sid w) = trace w" using p(2) eq by simp
  show "timers (connect pf sid w) = timers w" using p(3) eq by simp
  show "length (sockets (connect pf sid w)) = Suc (length (sockets w))" using p(4) eq by simp
  show "reconnectAttempts (services (connect pf sid w) ! sid) = reconnectAttempts (services w ! sid)"
    using p(5) eq sid by simp
  show "isConnecting (services (connect pf sid w) ! sid)" using p(6) eq sid by simp
  show "ws_url (services (connect pf sid w) ! sid) tt = ws_url (services w ! sid) tt"
    using p(7) eq u by simp
  show "walletSocket (services (connect pf sid w) ! sid) = Some (length (sockets w))"
    using p(8) eq by simp
qed

lemma connect_await_others:
  assumes "j < length (sockets v)"
  shows "sockets (connect_await pf sid t v) ! j = sockets v ! j"
  using assms
  by (simp add: connect_await_def connectChannel_def Let_def connect_catch_def nth_append)

lemma sock_open_others:
  assumes "j < length (sockets w)" and "j \<noteq> i"
  shows "sockets (sock_open pf i w) ! j = sockets w ! j"
proof -
  let ?w3 = "upd_socket i (\<lambda>k. k\<lparr> pending := False \<rparr>)
                (emit [Console Log (topic_title (topic (sockets w ! i)) @ '' WebSocket connected'')]
                   (upd_socket i (\<lambda>k. k\<lparr> readyState := OPEN \<rparr>) w))"
  have j3: "j < length (sockets ?w3)" and e3: "sockets ?w3 ! j = sockets w ! j"
    using assms by simp_all
  have "sockets (connect_resume pf (owner (sockets w ! i)) (topic (sockets w ! i)) ?w3) ! j
          = sockets ?w3 ! j"
    using connect_await_others [OF j3] by (cases "topic (sockets w ! i)") simp_all
  then show ?thesis
    using assms e3 by (simp add: sock_open_def Let_def)
qed

text \<open>
  \<open>connect()\<close> on an idle instance followed by the three opens: nothing settles before
  the third open; the third open fulfils the promise, resets the counter and clears the
  flag, and the three sockets are open.
\<close>

lemma connect_three_opens:
  fixes w :: "'n world"
  assumes sid: "sid < length (services w)" and idle: "\<not> isConnecting (services w ! sid)"
    and url: "\<forall>t. url_accepted pf (ws_url (services w ! sid) t)"
  defines "i \<equiv> length (sockets w)"
  defines "w1 \<equiv> connect pf sid w"
  defines "w2 \<equiv> step pf (SockOpen i) w1"
  defines "w3 \<equiv> step pf (SockOpen (Suc i)) w2"
  defines "w4 \<equiv> step pf (SockOpen (Suc (Suc i))) w3"
  shows "trace w3 = trace w @ [Console Log ''Wallet WebSocket connected'',
                              Console Log ''Bots WebSocket connected'']"
    and "trace w4 = trace w @ [Console Log ''Wallet WebSocket connected'',
                              Console Log ''Bots WebSocket connected'',
                              Console Log ''Notifications WebSocket connected'',
                              Console Log ''All WebSocket connections established'',
                              ConnectSettled sid Fulfilled]"
    and "isConnecting (services w1 ! sid) \<and> isConnecting (services w2 ! sid)
         \<and> isConnecting (services w3 ! sid) \<and> \<not> isConnecting (services w4 ! sid)"
    and "reconnectAttempts (services w3 ! sid) = reconnectAttempts (services w ! sid)"
    and "reconnectAttempts (services w4 ! sid) = 0"
    and "readyState (sockets w4 ! i) = OPEN \<and> readyState (sockets w4 ! Suc i) = OPEN
         \<and> readyState (sockets w4 ! Suc (Suc i)) = OPEN"
    and "timers w4 = timers w"
proof -
  note c = connect_start [OF sid idle url [rule_format], of ]
  have l1: "length (sockets w1) = Suc i" and s1: "sid < length (services w1)"
    and a1: "awaiting w1 sid Wallet i"
    using c(1,4) sid by (simp_all add: w1_def i_def)
  have u1: "\<And>tt. url_accepted pf (ws_url (services w1 ! sid) tt)"
    using c(7) url by (simp add: w1_def)
  have e2: "w2 = sock_open pf i w1" using l1 by (simp add: w2_def)
  note o2 = sock_open_next [OF a1 s1 _ u1, of Bots]
  have l2: "length (sockets w2) = Suc (Suc i)" and s2: "sid < length (services w2)"
    and a2: "awaiting w2 sid Bots (Suc i)"
    using o2(1,4,5) l1 s1 by (simp_all add: e2)
  have u2: "\<And>tt. url_accepted pf (ws_url (services w2 ! sid) tt)"
    using o2(8) u1 by (simp add: e2)
  have e3: "w3 = sock_open pf (Suc i) w2" using l2 by (simp add: w3_def)
  note o3 = sock_open_next [OF a2 s2 _ u2, of Notifications]
  have l3: "length (sockets w3) = Suc (Suc (Suc i))" and s3: "sid < length (services w3)"
    and a3: "awaiting w3 sid Notifications (Suc (Suc i))"
    using o3(1,4,5) l2 s2 by (simp_all add: e3)
  have e4: "w4 = sock_open pf (Suc (Suc i)) w3" using l3 by (simp add: w4_def)
  note o4 = sock_open_last [OF a3 s3, of pf]
  have t1: "trace w1 = trace w" using c(2) by (simp add: w1_def)
  have t2: "trace w2 = trace w @ [Console Log ''Wallet WebSocket connected'']"
    using o2(2) t1 by (simp add: e2)
  show t3: "trace w3 = trace w @ [Console Log ''Wallet WebSocket connected'',
                                  Console Log ''Bots WebSocket connected'']"
    using o3(2) t2 by (simp add: e3)
  show "trace w4 = trace w @ [Console Log ''Wallet WebSocket connected'',
                              Console Log ''Bots WebSocket connected'',
                              Console Log ''Notifications WebSocket connected'',
                              Console Log ''All WebSocket connections established'',
                              ConnectSettled sid Fulfilled]"
    using o4(1) t3 by (simp add: e4)
  have c1: "isConnecting (services w1 ! sid)" using c(6) by (simp add: w1_def)
  then have c2: "isConnecting (services w2 ! sid)" using o2(7) by (simp add: e2)
  then have c3: "isConnecting (services w3 ! sid)" using o3(7) by (simp add: e3)
  show "isConnecting (services w1 ! sid) \<and> isConnecting (services w2 ! sid)
         \<and> isConnecting (services w3 ! sid) \<and> \<not> isConnecting (services w4 ! sid)"
    using c1 c2 c3 o4(3) by (simp add: e4)
  show "reconnectAttempts (services w3 ! sid) = reconnectAttempts (services w ! sid)"
    using c(5) o2(6) o3(6) by (simp add: e3 e2 w1_def)
  show "reconnectAttempts (services w4 ! sid) = 0" using o4(2) by (simp add: e4)
  have r2: "readyState (sockets w2 ! i) = OPEN" using o2(9) by (simp add: e2)
  have "sockets w3 ! i = sockets w2 ! i"
    unfolding e3 using l2 by (intro sock_open_others) simp_all
  then have r3: "readyState (sockets w3 ! i) = OPEN" using r2 by simp
  have r3': "readyState (sockets w3 ! Suc i) = OPEN" using o3(9) by (simp add: e3)
  have "sockets w4 ! i = sockets w3 ! i" "sockets w4 ! Suc i = sockets w3 ! Suc i"
    unfolding e4 using l3 by (intro sock_open_others; simp)+
  then show "readyState (sockets w4 ! i) = OPEN \<and> readyState (sockets w4 ! Suc i) = OPEN
         \<and> readyState (sockets w4 ! Suc (Suc i)) = OPEN"
    using r3 r3' o4(6) by (simp add: e4)
  show "timers w4 = timers w"
    using c(3) o2(3) o3(3) o4(4) by (simp add: e4 e3 e2 w1_def)
qed

subsection \<open>The promise returned by connect\<close>

lemma failed_open_world_eq:
  "failed_open_world =
     \<lparr> services =
         [\<lparr> walletSocket = Some 0, botsSocket = None, notificationsSocket = None,
            reconnectAttempts = 1, maxReconnectAttempts = 5, reconnectDelay = 1000,
            callbacks = no_callbacks, isConnecting = False,
            baseUrl = ''http://localhost:8000'', authToken = ''tok'', userId = ''u1'' \<rparr>],
       sockets =
         [\<lparr> owner = 0, topic = Wallet, url = ''ws://localhost:8000/ws/wallet/u1?token=tok'',
            readyState = CONNECTING, pending = False, sent = [] \<rparr>],
       timers = [(0, 1000)], websocketService = Some 0,
       trace =
         [Console Error ''Wallet WebSocket error:'',
          Console Error ''Error connecting WebSockets:'',
          Console Log ''Scheduling WebSocket reconnect in 1000ms (attempt 1)'',
          ConnectSettled 0 Fulfilled] \<rparr>"
  by (simp add: failed_open_world_def plain_platform_def eval_defs)

lemma scheduleReconnect_settled [simp]:
  "filter (is_settled s) (trace (scheduleReconnect sid w)) = filter (is_settled s) (trace w)"
  by (simp add: scheduleReconnect_def Let_def)

lemma scheduleReconnect_isConnecting [simp]:
  "isConnecting (services (scheduleReconnect sid w) ! j) = isConnecting (services w ! j)"
proof (cases "sid < length (services w)")
  case True
  then show ?thesis
    by (cases "j = sid") (simp_all add: scheduleReconnect_def Let_def)
next
  case False
  then show ?thesis by (simp add: scheduleReconnect_def Let_def list_update_beyond)
qed

lemma connect_catch_props:
  assumes "sid < length (services w)"
  shows "filter (is_settled sid) (trace (connect_catch sid w)) =
           filter (is_settled sid) (trace w) @ [ConnectSettled sid Fulfilled]"
    and "\<not> isConnecting (services (connect_catch sid w) ! sid)"
    and "sockets (connect_catch sid w) = sockets w"
    and "connect_catch sid w =
           emit [ConnectSettled sid Fulfilled]
             (scheduleReconnect sid
                (upd_service sid (\<lambda>s. s\<lparr> isConnecting := False \<rparr>)
                   (emit [Console Error ''Error connecting WebSockets:''] w)))"
  using assms by (simp_all add: connect_catch_def)

lemma sock_error_awaiting:
  assumes "awaiting w sid t i"
  shows "sock_error i w =
           connect_catch sid
             (upd_socket i (\<lambda>k. k\<lparr> pending := False \<rparr>)
                (emit [Console Error (topic_title t @ '' WebSocket error:'')] w))"
  using assms by (simp add: sock_error_def Let_def awaiting_def)

lemma never_rejected:
  "filter is_rejected (trace (run pf es init_world)) = []"
proof (induction es rule: rev_induct)
  case Nil
  show ?case by (simp add: run_def init_world_def)
next
  case (snoc e es)
  then show ?case by (simp add: run_snoc quiet_step)
qed

text \<open>
  C2, as amended. The promise returned by \<open>connect()\<close> is never rejected. On an idle
  instance, \<open>connect()\<close> followed by the opens of the wallet, bots and notifications sockets
  settles nothing before the third open and is fulfilled once by it, with the three
  sockets open, the counter at zero and the flag cleared. When the socket that
  \<open>connect()\<close> awaits reports an error, the \<open>catch\<close> block runs: the promise is fulfilled,
  the flag is cleared, no further channel is opened and \<open>scheduleReconnect\<close> is called for
  the instance. A call while a connect is in flight is fulfilled at once and changes
  nothing else.
\<close>

theorem connect_settles_fulfilled:
  fixes w :: "'n world"
  assumes "sid < length (services w)"
  shows "filter is_rejected (trace (run pf es init_world)) = []
   \<and> (isConnecting (services w ! sid) \<longrightarrow>
        connect pf sid w = w\<lparr> trace := trace w @ [ConnectSettled sid Fulfilled] \<rparr>)
   \<and> (\<not> isConnecting (services w ! sid) \<and> (\<forall>t. url_accepted pf (ws_url (services w ! sid) t)) \<longrightarrow>
        (let i = length (sockets w);
             w3 = step pf (SockOpen (Suc i)) (step pf (SockOpen i) (connect pf sid w));
             w4 = step pf (SockOpen (Suc (Suc i))) w3
         in filter (is_settled sid) (trace w3) = filter (is_settled sid) (trace w)
            \<and> filter (is_settled sid) (trace w4) =
                filter (is_settled sid) (trace w) @ [ConnectSettled sid Fulfilled]
            \<and> readyState (sockets w4 ! i) = OPEN \<and> readyState (sockets w4 ! Suc i) = OPEN
            \<and> readyState (sockets w4 ! Suc (Suc i)) = OPEN
            \<and> reconnectAttempts (services w4 ! sid) = 0
            \<and> \<not> isConnecting (services w4 ! sid)))
   \<and> (\<forall>i t. awaiting w sid t i \<longrightarrow>
        (let w' = step pf (SockError i) w
         in filter (is_settled sid) (trace w') =
              filter (is_settled sid) (trace w) @ [ConnectSettled sid Fulfilled]
            \<and> \<not> isConnecting (services w' ! sid)
            \<and> length (sockets w') = length (sockets w)
            \<and> w' = emit [ConnectSettled sid Fulfilled]
                     (scheduleReconnect sid
                        (upd_service sid (\<lambda>s. s\<lparr> isConnecting := False \<rparr>)
                           (emit [Console Error ''Error connecting WebSockets:'']
                              (upd_socket i (\<lambda>k. k\<lparr> pending := False \<rparr>)
                                 (emit [Console Error (topic_title t @ '' WebSocket error:'')] w)))))))"
proof (intro conjI impI allI)
  show "filter is_rejected (trace (run pf es init_world)) = []" by (rule never_rejected)
next
  assume "isConnecting (services w ! sid)"
  then show "connect pf sid w = w\<lparr> trace := trace w @ [ConnectSettled sid Fulfilled] \<rparr>"
    by (simp add: connect_def emit_def)
next
  assume a: "\<not> isConnecting (services w ! sid) \<and> (\<forall>t. url_accepted pf (ws_url (services w ! sid) t))"
  then have idle: "\<not> isConnecting (services w ! sid)"
    and url: "\<forall>t. url_accepted pf (ws_url (services w ! sid) t)" by simp_all
  note p = connect_three_opens [OF assms idle url]
  show "let i = length (sockets w);
            w3 = step pf (SockOpen (Suc i)) (step pf (SockOpen i) (connect pf sid w));
            w4 = step pf (SockOpen (Suc (Suc i))) w3
        in filter (is_settled sid) (trace w3) = filter (is_settled sid) (trace w)
           \<and> filter (is_settled sid) (trace w4) =
               filter (is_settled sid) (trace w) @ [ConnectSettled sid Fulfilled]
           \<and> readyState (sockets w4 ! i) = OPEN \<and> readyState (sockets w4 ! Suc i) = OPEN
           \<and> readyState (sockets w4 ! Suc (Suc i)) = OPEN
           \<and> reconnectAttempts (services w4 ! sid) = 0
           \<and> \<not> isConnecting (services w4 ! sid)"
    unfolding Let_def using p(1,2,3,5,6) by simp
next
  fix i t
  assume aw: "awaiting w sid t i"
  then have i: "i < length (sockets w)" by (simp add: awaiting_def)
  let ?v = "upd_socket i (\<lambda>k. k\<lparr> pending := False \<rparr>)
              (emit [Console Error (topic_title t @ '' WebSocket error:'')] w)"
  have e: "step pf (SockError i) w = connect_catch sid ?v"
    using i sock_error_awaiting [OF aw] by simp
  have sv: "sid < length (services ?v)" using assms by simp
  note c = connect_catch_props [OF sv]
  show "let w' = step pf (SockError i) w
        in filter (is_settled sid) (trace w') =
             filter (is_settled sid) (trace w) @ [ConnectSettled sid Fulfilled]
           \<and> \<not> isConnecting (services w' ! sid)
           \<and> length (sockets w') = length (sockets w)
           \<and> w' = emit [ConnectSettled sid Fulfilled]
                    (scheduleReconnect sid
                       (upd_service sid (\<lambda>s. s\<lparr> isConnecting := False \<rparr>)
                          (emit [Console Error ''Error connecting WebSockets:'']
                             (upd_socket i (\<lambda>k. k\<lparr> pending := False \<rparr>)
                                (emit [Console Error (topic_title t @ '' WebSocket error:'')] w)))))"
    unfolding Let_def e using c(1,2,3) c(4) by simp
qed

theorem connect_rejects_counterexample:
  "readyState (sockets failed_open_world ! 0) \<noteq> OPEN
   \<and> filter (is_settled 0) (trace failed_open_world) = [ConnectSettled 0 Fulfilled]
   \<and> filter is_rejected (trace failed_open_world) = []"
  by (simp add: failed_open_world_eq)

theorem connect_settles_fulfilled_witness:
  "filter (is_settled 0) (trace (step plain_platform (SockOpen (Suc 0))
      (step plain_platform (SockOpen 0) (connect plain_platform 0 fresh_world)))) = []
   \<and> filter (is_settled 0) (trace (step plain_platform (SockOpen (Suc (Suc 0)))
      (step plain_platform (SockOpen (Suc 0))
      (step plain_platform (SockOpen 0) (connect plain_platform 0 fresh_world))))) =
       [ConnectSettled 0 Fulfilled]
   \<and> filter (is_settled 0) (trace (step plain_platform (SockError 0)
      (connect plain_platform 0 fresh_world))) = [ConnectSettled 0 Fulfilled]"
proof -
  have f: "0 < length (services fresh_world)" "\<not> isConnecting (services fresh_world ! 0)"
      "length (sockets fresh_world) = 0" "trace fresh_world = []"
    by (simp_all add: fresh_world_eq new_service_def)
  have u: "\<forall>t. url_accepted plain_platform (ws_url (services fresh_world ! 0) t)"
    by (simp add: plain_platform_def test_platform_def)
  have a: "\<not> isConnecting (services fresh_world ! 0)
           \<and> (\<forall>t. url_accepted plain_platform (ws_url (services fresh_world ! 0) t))"
    using f(2) u by simp
  note T = connect_settles_fulfilled [OF f(1), of plain_platform "[]", unfolded Let_def f(3)]
  let ?w3 = "step plain_platform (SockOpen (Suc 0))
      (step plain_platform (SockOpen 0) (connect plain_platform 0 fresh_world))"
  have s3: "filter (is_settled 0) (trace ?w3) = filter (is_settled 0) (trace fresh_world)"
    and s4: "filter (is_settled 0) (trace (step plain_platform (SockOpen (Suc (Suc 0))) ?w3)) =
              filter (is_settled 0) (trace fresh_world) @ [ConnectSettled 0 Fulfilled]"
    using T a by blast+
  let ?c = "connect plain_platform 0 fresh_world"
  note c = connect_start [OF f(1,2) u [rule_format, of Wallet]]
  have aw: "awaiting ?c 0 Wallet 0" and tc: "trace ?c = []" and lc: "0 < length (services ?c)"
    using c(1,2) f by simp_all
  note E = connect_settles_fulfilled [OF lc, of plain_platform "[]", unfolded Let_def]
  have s5: "filter (is_settled 0) (trace (step plain_platform (SockError 0) ?c)) =
              filter (is_settled 0) (trace ?c) @ [ConnectSettled 0 Fulfilled]"
    using E aw by blast
  from s3 s4 s5 show ?thesis
    unfolding f(4) tc by (simp only: filter.simps append_Nil simp_thms)
qed

subsection \<open>The attempt counter\<close>

lemma show_nat_small [simp]:
  "show_nat (Suc (Suc 0)) = ''2''"
  "show_nat (Suc (Suc (Suc 0))) = ''3''"
  "show_nat (Suc (Suc (Suc (Suc 0)))) = ''4''"
  "show_nat (Suc (Suc (Suc (Suc (Suc 0))))) = ''5''"
  by (simp_all add: show_nat.simps digit_char_def)

lemma reopened_wallet_world_eq:
  "reopened_wallet_world =
     \<lparr> services =
         [\<lparr> walletSocket = Some 1, botsSocket = Some 2, notificationsSocket = None,
            reconnectAttempts = 2, maxReconnectAttempts = 5, reconnectDelay = 1000,
            callbacks = no_callbacks, isConnecting = True,
            baseUrl = ''http://localhost:8000'', authToken = ''tok'', userId = ''u1'' \<rparr>],
       sockets =
         [\<lparr> owner = 0, topic = Wallet, url = ''ws://localhost:8000/ws/wallet/u1?token=tok'',
            readyState = CLOSED, pending = False, sent = [] \<rparr>,
          \<lparr> owner = 0, topic = Wallet, url = ''ws://localhost:8000/ws/wallet/u1?token=tok'',
            readyState = OPEN, pending = False, sent = [] \<rparr>,
          \<lparr> owner = 0, topic = Bots, url = ''ws://localhost:8000/ws/bots/u1?token=tok'',
            readyState = CONNECTING, pending = True, sent = [] \<rparr>],
       timers = [(0, 2000)], websocketService = Some 0,
       trace =
         [Console Error ''Wallet WebSocket error:'',
          Console Error ''Error connecting WebSockets:'',
          Console Log ''Scheduling WebSocket reconnect in 1000ms (attempt 1)'',
          ConnectSettled 0 Fulfilled,
          Console Log ''Wallet WebSocket disconnected'',
          Console Log ''Scheduling WebSocket reconnect in 2000ms (attempt 2)'',
          Console Log ''Wallet WebSocket connected''] \<rparr>"
  by (simp add: reopened_wallet_world_def plain_platform_def eval_defs)

lemma scheduleReconnect_attempts:
  "reconnectAttempts (services w ! j) \<le> reconnectAttempts (services (scheduleReconnect sid w) ! j)"
  "maxReconnectAttempts (services (scheduleReconnect sid w) ! j) = maxReconnectAttempts (services w ! j)"
  "reconnectAttempts (services w ! j) \<le> maxReconnectAttempts (services w ! j) \<Longrightarrow>
     reconnectAttempts (services (scheduleReconnect sid w) ! j) \<le> maxReconnectAttempts (services w ! j)"
proof -
  have "reconnectAttempts (services w ! j) \<le> reconnectAttempts (services (scheduleReconnect sid w) ! j)
      \<and> maxReconnectAttempts (services (scheduleReconnect sid w) ! j) = maxReconnectAttempts (services w ! j)
      \<and> (reconnectAttempts (services w ! j) \<le> maxReconnectAttempts (services w ! j) \<longrightarrow>
           reconnectAttempts (services (scheduleReconnect sid w) ! j) \<le> maxReconnectAttempts (services w ! j))"
  proof (cases "sid < length (services w)")
    case True
    then show ?thesis
      by (cases "j = sid") (simp_all add: scheduleReconnect_def Let_def)
  next
    case False
    then show ?thesis by (simp add: scheduleReconnect_def Let_def list_update_beyond)
  qed
  then show
    "reconnectAttempts (services w ! j) \<le> reconnectAttempts (services (scheduleReconnect sid w) ! j)"
    "maxReconnectAttempts (services (scheduleReconnect sid w) ! j) = maxReconnectAttempts (services w ! j)"
    "reconnectAttempts (services w ! j) \<le> maxReconnectAttempts (services w ! j) \<Longrightarrow>
       reconnectAttempts (services (scheduleReconnect sid w) ! j) \<le> maxReconnectAttempts (services w ! j)"
    by simp_all
qed

lemma upd_service_attempts:
  assumes "\<And>s. reconnectAttempts (f s) = reconnectAttempts s"
  shows "reconnectAttempts (services (upd_service sid f w) ! j) = reconnectAttempts (services w ! j)"
proof (cases "sid < length (services w)")
  case True
  then show ?thesis using assms by (cases "j = sid") simp_all
next
  case False
  then show ?thesis by (simp add: list_update_beyond)
qed

lemma connect_catch_attempts:
  "reconnectAttempts (services w ! j) \<le> reconnectAttempts (services (connect_catch sid w) ! j)"
proof -
  let ?v = "upd_service sid (\<lambda>s. s\<lparr> isConnecting := False \<rparr>)
              (emit [Console Error ''Error connecting WebSockets:''] w)"
  have "reconnectAttempts (services ?v ! j) = reconnectAttempts (services w ! j)"
    using upd_service_attempts [of "\<lambda>s. s\<lparr> isConnecting := False \<rparr>" sid _ j] by simp
  then show ?thesis
    using scheduleReconnect_attempts(1) [where w = ?v and j = j and sid = sid]
    by (simp add: connect_catch_def)
qed

lemma connect_await_attempts:
  "reconnectAttempts (services w ! j) \<le> reconnectAttempts (services (connect_await pf sid t w) ! j)"
proof (cases "url_accepted pf (ws_url (services w ! sid) t)")
  case True
  let ?v = "w\<lparr> sockets := sockets w @
                  [\<lparr> owner = sid, topic = t, url = ws_url (services w ! sid) t,
                     readyState = CONNECTING, pending = True, sent = [] \<rparr>] \<rparr>"
  have "reconnectAttempts (services (upd_service sid (set_socket_field t (Some (length (sockets w)))) ?v) ! j)
          = reconnectAttempts (services ?v ! j)"
    by (rule upd_service_attempts) simp
  then show ?thesis unfolding connect_await_accept [OF True] by simp
next
  case False
  then show ?thesis using connect_catch_attempts [of w j sid] by (simp add: connect_await_refuse)
qed

lemma sock_open_attempts:
  assumes "topic (sockets w ! i) \<noteq> Notifications"
  shows "reconnectAttempts (services w ! j) \<le> reconnectAttempts (services (sock_open pf i w) ! j)"
proof -
  let ?k = "sockets w ! i"
  let ?v = "upd_socket i (\<lambda>k. k\<lparr> pending := False \<rparr>)
              (emit [Console Log (topic_title (topic ?k) @ '' WebSocket connected'')]
                 (upd_socket i (\<lambda>k. k\<lparr> readyState := OPEN \<rparr>) w))"
  have "reconnectAttempts (services w ! j)
          \<le> reconnectAttempts (services (connect_resume pf (owner ?k) (topic ?k) ?v) ! j)"
    using assms connect_await_attempts [of ?v j pf "owner ?k"]
    by (cases "topic ?k") simp_all
  then show ?thesis by (simp add: sock_open_def Let_def)
qed

lemma sock_close_attempts:
  "reconnectAttempts (services w ! j) \<le> reconnectAttempts (services (sock_close i w) ! j)"
  "maxReconnectAttempts (services (sock_close i w) ! j) = maxReconnectAttempts (services w ! j)"
  "reconnectAttempts (services w ! j) \<le> maxReconnectAttempts (services w ! j) \<Longrightarrow>
     reconnectAttempts (services (sock_close i w) ! j) \<le> maxReconnectAttempts (services w ! j)"
proof -
  let ?k = "sockets w ! i"
  let ?w2 = "emit [Console Log (topic_title (topic ?k) @ '' WebSocket disconnected'')]
               (upd_socket i (\<lambda>k. k\<lparr> readyState := CLOSED \<rparr>) w)"
  note a = scheduleReconnect_attempts [where w = ?w2 and j = j and sid = "owner ?k"]
  note b = scheduleReconnect_attempts [where w = "emit [Invoke OnDisconnect None] ?w2" and j = j
             and sid = "owner ?k"]
  show "reconnectAttempts (services w ! j) \<le> reconnectAttempts (services (sock_close i w) ! j)"
    using a(1) b(1) by (auto simp add: sock_close_def Let_def split: option.splits outcome.splits)
  show "maxReconnectAttempts (services (sock_close i w) ! j) = maxReconnectAttempts (services w ! j)"
    using a(2) b(2) by (auto simp add: sock_close_def Let_def split: option.splits outcome.splits)
  show "reconnectAttempts (services w ! j) \<le> maxReconnectAttempts (services w ! j) \<Longrightarrow>
     reconnectAttempts (services (sock_close i w) ! j) \<le> maxReconnectAttempts (services w ! j)"
    using a(3) b(3) by (auto simp add: sock_close_def Let_def split: option.splits outcome.splits)
qed

subsection \<open>The counter under every event\<close>

lemma close_field_attempts [simp]:
  "reconnectAttempts (services (close_field sid t w) ! j) = reconnectAttempts (services w ! j)"
proof (cases "socket_field t (services w ! sid)")
  case None
  then show ?thesis by (simp add: close_field_def)
next
  case (Some i)
  have "reconnectAttempts (services (upd_service sid (set_socket_field t None) (upd_socket i ws_close w)) ! j)
          = reconnectAttempts (services (upd_socket i ws_close w) ! j)"
    by (rule upd_service_attempts) simp
  then show ?thesis using Some by (simp add: close_field_def)
qed

lemma disconnect_attempts [simp]:
  "reconnectAttempts (services (disconnect sid w) ! j) = reconnectAttempts (services w ! j)"
  by (simp add: disconnect_def)

lemma connect_attempts:
  "reconnectAttempts (services w ! j) \<le> reconnectAttempts (services (connect pf sid w) ! j)"
proof (cases "isConnecting (services w ! sid)")
  case True
  then show ?thesis by (simp add: connect_def)
next
  case False
  let ?v = "upd_service sid (\<lambda>s. s\<lparr> isConnecting := True \<rparr>) w"
  have "reconnectAttempts (services ?v ! j) = reconnectAttempts (services w ! j)"
    by (rule upd_service_attempts) simp
  then show ?thesis
    using False connect_await_attempts [of ?v j pf sid Wallet] by (simp add: connect_def)
qed

lemma sendMessage_services [simp]: "services (sendMessage pf sid m t w) = services w"
  by (simp add: sendMessage_def split: option.splits)

lemma handleMessage_services [simp]: "services (handleMessage pf sid data source w) = services w"
  by (simp add: handleMessage_def split: prod.splits outcome.splits)

lemma setCallbacks_attempts [simp]:
  "reconnectAttempts (services (setCallbacks sid cbs w) ! j) = reconnectAttempts (services w ! j)"
  unfolding setCallbacks_def by (rule upd_service_attempts) simp

lemma initializeWebSocket_attempts:
  assumes "j < length (services w)"
  shows "reconnectAttempts (services (initializeWebSocket b a u cbs w) ! j)
           = reconnectAttempts (services w ! j)"
proof -
  let ?d = "case websocketService w of None \<Rightarrow> w | Some old \<Rightarrow> disconnect old w"
  have l: "length (services ?d) = length (services w)"
    and r: "reconnectAttempts (services ?d ! j) = reconnectAttempts (services w ! j)"
    by (simp_all split: option.splits)
  let ?g = "?d\<lparr> services := services ?d @ [new_service b a u],
                 websocketService := Some (length (services ?d)) \<rparr>"
  have "reconnectAttempts (services (setCallbacks (length (services ?d)) cbs ?g) ! j)
          = reconnectAttempts (services ?g ! j)"
    by simp
  also have "\<dots> = reconnectAttempts (services ?d ! j)"
    using assms l by (simp add: nth_append)
  finally show ?thesis using r by (simp add: initializeWebSocket_def Let_def)
qed

lemma disconnectWebSocket_attempts [simp]:
  "reconnectAttempts (services (disconnectWebSocket w) ! j) = reconnectAttempts (services w ! j)"
  by (simp add: disconnectWebSocket_def split: option.splits)

lemma sock_error_attempts:
  "reconnectAttempts (services w ! j) \<le> reconnectAttempts (services (sock_error i w) ! j)"
proof -
  let ?v = "upd_socket i (\<lambda>k. k\<lparr> pending := False \<rparr>)
              (emit [Console Error (topic_title (topic (sockets w ! i)) @ '' WebSocket error:'')] w)"
  show ?thesis
    using connect_catch_attempts [of ?v j "owner (sockets w ! i)"]
    by (simp add: sock_error_def Let_def)
qed

lemma timer_fire_attempts:
  "reconnectAttempts (services w ! j) \<le> reconnectAttempts (services (timer_fire pf k w) ! j)"
proof (cases "k < length (timers w)")
  case True
  let ?v = "w\<lparr> timers := take k (timers w) @ drop (Suc k) (timers w) \<rparr>"
  show ?thesis
    using True connect_attempts [of ?v j pf "fst (timers w ! k)"] by (simp add: timer_fire_def)
next
  case False
  then show ?thesis by (simp add: timer_fire_def)
qed

text \<open>
  The open of a socket lowers the counter of an instance only when it is the notifications
  socket that the instance's \<open>connect()\<close> awaits; then the counter becomes zero.
\<close>

lemma sock_open_attempts_cases:
  assumes "i < length (sockets w)"
  shows "reconnectAttempts (services w ! j) \<le> reconnectAttempts (services (sock_open pf i w) ! j)
       \<or> (awaiting w j Notifications i \<and> reconnectAttempts (services (sock_open pf i w) ! j) = 0)"
proof (cases "topic (sockets w ! i) = Notifications")
  case False
  then show ?thesis using sock_open_attempts [of w i j pf] by simp
next
  case True
  show ?thesis
  proof (cases "readyState (sockets w ! i) = CONNECTING \<and> pending (sockets w ! i)")
    case False
    then show ?thesis by (auto simp: sock_open_def Let_def)
  next
    case rp: True
    let ?o = "owner (sockets w ! i)"
    let ?v = "upd_socket i (\<lambda>k. k\<lparr> pending := False \<rparr>)
                (emit [Console Log (topic_title (topic (sockets w ! i)) @ '' WebSocket connected'')]
                   (upd_socket i (\<lambda>k. k\<lparr> readyState := OPEN \<rparr>) w))"
    have e: "services (sock_open pf i w) =
               (services w)[?o := (services w ! ?o)\<lparr> reconnectAttempts := 0, isConnecting := False \<rparr>]"
      using True rp by (simp add: sock_open_def Let_def)
    show ?thesis
    proof (cases "j = ?o \<and> ?o < length (services w)")
      case True
      then have "awaiting w j Notifications i"
        using assms \<open>topic (sockets w ! i) = Notifications\<close> rp by (simp add: awaiting_def)
      moreover have "reconnectAttempts (services (sock_open pf i w) ! j) = 0"
        using True e by simp
      ultimately show ?thesis by simp
    next
      case False
      then have "services (sock_open pf i w) ! j = services w ! j"
        unfolding e by (cases "?o < length (services w)") (auto simp: list_update_beyond)
      then show ?thesis by simp
    qed
  qed
qed

lemma step_attempts:
  "reconnectAttempts (services w ! j) \<le> reconnectAttempts (services (step pf e w) ! j)
   \<or> (\<exists>i. e = SockOpen i \<and> awaiting w j Notifications i
           \<and> reconnectAttempts (services (step pf e w) ! j) = 0)"
  if "j < length (services w)"
proof (cases e)
  case (CallInitialize b a u cbs)
  then show ?thesis using initializeWebSocket_attempts [OF that] by simp
next
  case (SockOpen i)
  then show ?thesis using sock_open_attempts_cases [of i w j pf] by auto
qed (simp_all add: connect_attempts ping_def subscribeToTransactions_def getWalletStatus_def
       subscribeToBotUpdates_def sock_message_def Let_def sock_error_attempts
       sock_close_attempts(1) timer_fire_attempts)

lemma step_services_length: "length (services w) \<le> length (services (step pf e w))"
  by (cases e)
     (simp_all add: initializeWebSocket_def Let_def setCallbacks_def disconnectWebSocket_def
        ping_def subscribeToTransactions_def getWalletStatus_def subscribeToBotUpdates_def
        sock_open_def sock_message_def sock_error_def sock_close_def timer_fire_def
        split: option.splits outcome.splits)

lemma throwing_world_eq:
  "throwing_world =
     \<lparr> services =
         [\<lparr> walletSocket = Some 0, botsSocket = Some 1, notificationsSocket = None,
            reconnectAttempts = 0, maxReconnectAttempts = 5, reconnectDelay = 1000,
            callbacks = throwing_callbacks, isConnecting = True,
            baseUrl = ''http://localhost:8000'', authToken = ''tok'', userId = ''u1'' \<rparr>],
       sockets =
         [\<lparr> owner = 0, topic = Wallet, url = ''ws://localhost:8000/ws/wallet/u1?token=tok'',
            readyState = OPEN, pending = False, sent = [] \<rparr>,
          \<lparr> owner = 0, topic = Bots, url = ''ws://localhost:8000/ws/bots/u1?token=tok'',
            readyState = CONNECTING, pending = True, sent = [] \<rparr>],
       timers = [], websocketService = Some 0,
       trace = [Console Log ''Wallet WebSocket connected''] \<rparr>"
  by (simp add: throwing_world_def plain_platform_def eval_defs)

lemma sock_close_throwing:
  assumes "readyState (sockets w ! i) \<noteq> CLOSED" and "topic (sockets w ! i) = Wallet"
    and "onDisconnect (callbacks (services w ! owner (sockets w ! i))) = Some Throws"
  shows "sock_close i w =
           emit [Console Log ''Wallet WebSocket disconnected'', Invoke OnDisconnect None, Uncaught]
             (upd_socket i (\<lambda>k. k\<lparr> readyState := CLOSED \<rparr>) w)"
  using assms by (simp add: sock_close_def Let_def emit_def)

text \<open>
  C4, as amended. The instance keeps one attempt counter for all its channels. No event
  lowers it except the open of the notifications socket that \<open>connect()\<close> awaits, the third
  of its three opens, which resets it to zero; so the open of a wallet or bots socket
  does not lower it. The close of a socket never lowers the counter and keeps it at most
  the cap. Below the cap, the close of a socket of the instance raises it by one, except
  the close of a wallet socket whose \<open>onDisconnect\<close> callback throws: there the handler ends
  before \<open>scheduleReconnect\<close> and the instances are left as they are. After \<open>connect()\<close> on
  an idle instance and three successful opens the counter is zero.
\<close>

theorem attempt_counter_reset:
  fixes w :: "'n world"
  assumes "sid < length (services w)"
  shows "(\<forall>e. reconnectAttempts (services (step pf e w) ! sid) < reconnectAttempts (services w ! sid) \<longrightarrow>
            (\<exists>i. e = SockOpen i \<and> awaiting w sid Notifications i
                 \<and> reconnectAttempts (services (step pf e w) ! sid) = 0))
       \<and> (\<forall>i. i < length (sockets w) \<and> topic (sockets w ! i) \<noteq> Notifications \<longrightarrow>
            reconnectAttempts (services w ! sid)
              \<le> reconnectAttempts (services (step pf (SockOpen i) w) ! sid))
       \<and> (\<forall>i. awaiting w sid Notifications i \<longrightarrow>
            reconnectAttempts (services (step pf (SockOpen i) w) ! sid) = 0)
       \<and> (\<forall>i. reconnectAttempts (services w ! sid)
              \<le> reconnectAttempts (services (step pf (SockClose i) w) ! sid)
            \<and> (reconnectAttempts (services w ! sid) \<le> maxReconnectAttempts (services w ! sid) \<longrightarrow>
                 reconnectAttempts (services (step pf (SockClose i) w) ! sid)
                   \<le> maxReconnectAttempts (services w ! sid)))
       \<and> (\<forall>i. i < length (sockets w) \<and> owner (sockets w ! i) = sid
              \<and> readyState (sockets w ! i) \<noteq> CLOSED
              \<and> \<not> (topic (sockets w ! i) = Wallet
                     \<and> onDisconnect (callbacks (services w ! sid)) = Some Throws)
              \<and> reconnectAttempts (services w ! sid) < maxReconnectAttempts (services w ! sid) \<longrightarrow>
            reconnectAttempts (services (step pf (SockClose i) w) ! sid)
              = reconnectAttempts (services w ! sid) + 1)
       \<and> (\<forall>i. i < length (sockets w) \<and> owner (sockets w ! i) = sid
              \<and> readyState (sockets w ! i) \<noteq> CLOSED
              \<and> topic (sockets w ! i) = Wallet
              \<and> onDisconnect (callbacks (services w ! sid)) = Some Throws \<longrightarrow>
            services (step pf (SockClose i) w) = services w)
       \<and> (\<not> isConnecting (services w ! sid) \<and> (\<forall>t. url_accepted pf (ws_url (services w ! sid) t)) \<longrightarrow>
            (let i = length (sockets w)
             in reconnectAttempts
                  (services (step pf (SockOpen (Suc (Suc i))) (step pf (SockOpen (Suc i))
                     (step pf (SockOpen i) (connect pf sid w)))) ! sid) = 0))"
proof (intro conjI allI impI)
  fix e
  assume "reconnectAttempts (services (step pf e w) ! sid) < reconnectAttempts (services w ! sid)"
  then show "\<exists>i. e = SockOpen i \<and> awaiting w sid Notifications i
                 \<and> reconnectAttempts (services (step pf e w) ! sid) = 0"
    using step_attempts [OF assms, of pf e] by auto
next
  fix i
  assume "i < length (sockets w) \<and> topic (sockets w ! i) \<noteq> Notifications"
  then show "reconnectAttempts (services w ! sid)
               \<le> reconnectAttempts (services (step pf (SockOpen i) w) ! sid)"
    using sock_open_attempts [of w i sid pf] by simp
next
  fix i
  assume aw: "awaiting w sid Notifications i"
  then have "i < length (sockets w)" by (simp add: awaiting_def)
  then show "reconnectAttempts (services (step pf (SockOpen i) w) ! sid) = 0"
    using sock_open_last(2) [OF aw assms, of pf] by simp
next
  fix i
  show "reconnectAttempts (services w ! sid)
          \<le> reconnectAttempts (services (step pf (SockClose i) w) ! sid)"
    using sock_close_attempts(1) [of w sid i] by simp
next
  fix i
  assume "reconnectAttempts (services w ! sid) \<le> maxReconnectAttempts (services w ! sid)"
  then show "reconnectAttempts (services (step pf (SockClose i) w) ! sid)
               \<le> maxReconnectAttempts (services w ! sid)"
    using sock_close_attempts(3) [of w sid i] by simp
next
  fix i
  assume a: "i < length (sockets w) \<and> owner (sockets w ! i) = sid
              \<and> readyState (sockets w ! i) \<noteq> CLOSED
              \<and> \<not> (topic (sockets w ! i) = Wallet
                     \<and> onDisconnect (callbacks (services w ! sid)) = Some Throws)
              \<and> reconnectAttempts (services w ! sid) < maxReconnectAttempts (services w ! sid)"
  let ?w2 = "emit [Console Log (topic_title (topic (sockets w ! i)) @ '' WebSocket disconnected'')]
               (upd_socket i (\<lambda>k. k\<lparr> readyState := CLOSED \<rparr>) w)"
  have lt: "reconnectAttempts (services ?w2 ! sid) < maxReconnectAttempts (services ?w2 ! sid)"
    and lt': "reconnectAttempts (services (emit [Invoke OnDisconnect None] ?w2) ! sid)
                < maxReconnectAttempts (services (emit [Invoke OnDisconnect None] ?w2) ! sid)"
    using a by simp_all
  have "services (step pf (SockClose i) w) = services (scheduleReconnect sid ?w2)"
    using a scheduleReconnect_under(1) [OF lt] scheduleReconnect_under(1) [OF lt']
    by (auto simp: sock_close_def Let_def split: option.splits outcome.splits)
  then show "reconnectAttempts (services (step pf (SockClose i) w) ! sid)
               = reconnectAttempts (services w ! sid) + 1"
    using scheduleReconnect_under(1) [OF lt] assms by simp
next
  fix i
  assume a: "i < length (sockets w) \<and> owner (sockets w ! i) = sid
              \<and> readyState (sockets w ! i) \<noteq> CLOSED
              \<and> topic (sockets w ! i) = Wallet
              \<and> onDisconnect (callbacks (services w ! sid)) = Some Throws"
  then have "sock_close i w =
           emit [Console Log ''Wallet WebSocket disconnected'', Invoke OnDisconnect None, Uncaught]
             (upd_socket i (\<lambda>k. k\<lparr> readyState := CLOSED \<rparr>) w)"
    by (intro sock_close_throwing) simp_all
  then show "services (step pf (SockClose i) w) = services w"
    using a by simp
next
  assume a: "\<not> isConnecting (services w ! sid) \<and> (\<forall>t. url_accepted pf (ws_url (services w ! sid) t))"
  then have idle: "\<not> isConnecting (services w ! sid)"
    and url: "\<forall>t. url_accepted pf (ws_url (services w ! sid) t)" by simp_all
  show "let i = length (sockets w)
        in reconnectAttempts
             (services (step pf (SockOpen (Suc (Suc i))) (step pf (SockOpen (Suc i))
                (step pf (SockOpen i) (connect pf sid w)))) ! sid) = 0"
    unfolding Let_def using connect_three_opens(5) [OF assms idle url] .
qed

theorem attempt_counter_reset_counterexample:
  "topic (sockets reopened_wallet_world ! 1) = Wallet
   \<and> readyState (sockets reopened_wallet_world ! 1) = OPEN
   \<and> reconnectAttempts (services reopened_wallet_world ! 0) = 2"
  by (simp add: reopened_wallet_world_eq)

theorem attempt_counter_reset_witness:
  "reconnectAttempts (services failed_open_world ! 0) = 1
   \<and> reconnectAttempts
        (services (step plain_platform (SockOpen (Suc (Suc 1))) (step plain_platform (SockOpen (Suc 1))
           (step plain_platform (SockOpen 1) (connect plain_platform 0 failed_open_world)))) ! 0) = 0
   \<and> reconnectAttempts (services (step plain_platform (SockClose 0) failed_open_world) ! 0) = 1 + 1
   \<and> services (step plain_platform (SockClose 0) throwing_world) = services throwing_world"
proof -
  have f: "0 < length (services failed_open_world)"
      "\<not> isConnecting (services failed_open_world ! 0)"
      "length (sockets failed_open_world) = 1"
      "reconnectAttempts (services failed_open_world ! 0) = 1"
    by (simp_all add: failed_open_world_eq)
  have a: "\<not> isConnecting (services failed_open_world ! 0)
           \<and> (\<forall>t. url_accepted plain_platform (ws_url (services failed_open_world ! 0) t))"
    using f(2) by (simp add: plain_platform_def test_platform_def)
  have c: "0 < length (sockets failed_open_world) \<and> owner (sockets failed_open_world ! 0) = 0
              \<and> readyState (sockets failed_open_world ! 0) \<noteq> CLOSED
              \<and> \<not> (topic (sockets failed_open_world ! 0) = Wallet
                     \<and> onDisconnect (callbacks (services failed_open_world ! 0)) = Some Throws)
              \<and> reconnectAttempts (services failed_open_world ! 0)
                    < maxReconnectAttempts (services failed_open_world ! 0)"
    by (simp add: failed_open_world_eq no_callbacks_def)
  note T = attempt_counter_reset [OF f(1), of plain_platform, unfolded Let_def f(3)]
  have r1: "reconnectAttempts
        (services (step plain_platform (SockOpen (Suc (Suc 1))) (step plain_platform (SockOpen (Suc 1))
           (step plain_platform (SockOpen 1) (connect plain_platform 0 failed_open_world)))) ! 0) = 0"
    using T a by blast
  have r2: "reconnectAttempts (services (step plain_platform (SockClose 0) failed_open_world) ! 0)
              = reconnectAttempts (services failed_open_world ! 0) + 1"
    using T c by blast
  have g: "0 < length (services throwing_world)" by (simp add: throwing_world_eq)
  have d: "0 < length (sockets throwing_world) \<and> owner (sockets throwing_world ! 0) = 0
              \<and> readyState (sockets throwing_world ! 0) \<noteq> CLOSED
              \<and> topic (sockets throwing_world ! 0) = Wallet
              \<and> onDisconnect (callbacks (services throwing_world ! 0)) = Some Throws"
    by (simp add: throwing_world_eq throwing_callbacks_def)
  have r3: "services (step plain_platform (SockClose 0) throwing_world) = services throwing_world"
    using attempt_counter_reset [OF g, of plain_platform] d by blast
  from f(4) r1 r2 r3 show ?thesis by (simp only: simp_thms)
qed

subsection \<open>Failures at the cap\<close>

lemma exhausted_world_eq:
  "exhausted_world =
     \<lparr> services =
         [\<lparr> walletSocket = Some 3, botsSocket = None, notificationsSocket = None,
            reconnectAttempts = 5, maxReconnectAttempts = 5, reconnectDelay = 1000,
            callbacks = no_callbacks, isConnecting = False,
            baseUrl = ''http://localhost:8000'', authToken = ''tok'', userId = ''u1'' \<rparr>],
       sockets =
         [\<lparr> owner = 0, topic = Wallet, url = ''ws://localhost:8000/ws/wallet/u1?token=tok'',
            readyState = CLOSED, pending = False, sent = [] \<rparr>,
          \<lparr> owner = 0, topic = Wallet, url = ''ws://localhost:8000/ws/wallet/u1?token=tok'',
            readyState = CLOSED, pending = False, sent = [] \<rparr>,
          \<lparr> owner = 0, topic = Wallet, url = ''ws://localhost:8000/ws/wallet/u1?token=tok'',
            readyState = CLOSED, pending = False, sent = [] \<rparr>,
          \<lparr> owner = 0, topic = Wallet, url = ''ws://localhost:8000/ws/wallet/u1?token=tok'',
            readyState = CLOSED, pending = False, sent = [] \<rparr>],
       timers = [(0, 8000), (0, 16000)], websocketService = Some 0,
       trace =
         [Console Error ''Wallet WebSocket error:'',
          Console Error ''Error connecting WebSockets:'',
          Console Log ''Scheduling WebSocket reconnect in 1000ms (attempt 1)'',
          ConnectSettled 0 Fulfilled,
          Console Log ''Wallet WebSocket disconnected'',
          Console Log ''Scheduling WebSocket reconnect in 2000ms (attempt 2)'',
          Console Error ''Wallet WebSocket error:'',
          Console Error ''Error connecting WebSockets:'',
          Console Log ''Scheduling WebSocket reconnect in 4000ms (attempt 3)'',
          ConnectSettled 0 Fulfilled,
          Console Log ''Wallet WebSocket disconnected'',
          Console Log ''Scheduling WebSocket reconnect in 8000ms (attempt 4)'',
          Console Error ''Wallet WebSocket error:'',
          Console Error ''Error connecting WebSockets:'',
          Console Log ''Scheduling WebSocket reconnect in 16000ms (attempt 5)'',
          ConnectSettled 0 Fulfilled,
          Console Log ''Wallet WebSocket disconnected'',
          Console Error ''Max WebSocket reconnection attempts reached'',
          Toast TError (JStr ''Connection lost. Please refresh the page.'') None,
          Console Error ''Wallet WebSocket error:'',
          Console Error ''Error connecting WebSockets:'',
          Console Error ''Max WebSocket reconnection attempts reached'',
          Toast TError (JStr ''Connection lost. Please refresh the page.'') None,
          ConnectSettled 0 Fulfilled,
          Console Log ''Wallet WebSocket disconnected'',
          Console Error ''Max WebSocket reconnection attempts reached'',
          Toast TError (JStr ''Connection lost. Please refresh the page.'') None] \<rparr>"
  by (simp add: exhausted_world_def plain_platform_def eval_defs)

lemma scheduleReconnect_capped:
  assumes "maxReconnectAttempts (services w ! sid) \<le> reconnectAttempts (services w ! sid)"
  shows "scheduleReconnect sid w =
           w\<lparr> trace := trace w @
                 [Console Error ''Max WebSocket reconnection attempts reached'',
                  Toast TError (JStr ''Connection lost. Please refresh the page.'') None] \<rparr>"
  using assms by (simp add: scheduleReconnect_def Let_def emit_def)

lemma scheduleReconnect_capped_iter:
  assumes "maxReconnectAttempts (services w ! sid) \<le> reconnectAttempts (services w ! sid)"
  shows "services ((scheduleReconnect sid ^^ k) w) = services w
       \<and> timers ((scheduleReconnect sid ^^ k) w) = timers w
       \<and> length (filter is_connection_lost (trace ((scheduleReconnect sid ^^ k) w))) =
           length (filter is_connection_lost (trace w)) + k"
proof (induction k)
  case 0
  show ?case by simp
next
  case (Suc k)
  let ?v = "(scheduleReconnect sid ^^ k) w"
  have "maxReconnectAttempts (services ?v ! sid) \<le> reconnectAttempts (services ?v ! sid)"
    using Suc assms by simp
  from scheduleReconnect_capped [OF this] show ?case
    using Suc by simp
qed

lemma recovered_world_eq:
  "services recovered_world =
     [\<lparr> walletSocket = Some 4, botsSocket = Some 5, notificationsSocket = Some 6,
        reconnectAttempts = 1, maxReconnectAttempts = 5, reconnectDelay = 1000,
        callbacks = no_callbacks, isConnecting = False,
        baseUrl = ''http://localhost:8000'', authToken = ''tok'', userId = ''u1'' \<rparr>]
   \<and> timers recovered_world = [(0, 16000), (0, 1000)]
   \<and> length (filter is_connection_lost (trace recovered_world)) = 3"
  by (simp add: recovered_world_def exhausted_world_eq plain_platform_def eval_defs)

text \<open>
  C3, as amended. While the attempt counter of an instance is at the cap, every call of
  \<open>scheduleReconnect\<close> schedules no timer, leaves the counter where it is and emits one
  ``connection lost'' notification: \<open>k\<close> calls emit \<open>k\<close> notifications. So does every
  failed connect, whose \<open>catch\<close> block makes that call: on the error of a socket whose
  promise \<open>connect()\<close> has pending, and when the wallet socket cannot be constructed. So
  does the close of a socket of the instance, except the close of a wallet socket whose
  \<open>onDisconnect\<close> callback throws, which emits no notification and leaves timers and
  counter as they are. In every world reached from the initial one the counter stays at
  the cap under every event except the open of the notifications socket that \<open>connect()\<close>
  awaits, which resets it to zero.
\<close>

theorem connection_lost_per_failure:
  fixes w :: "'n world"
  assumes "sid < length (services w)"
    and "maxReconnectAttempts (services w ! sid) = 5"
    and "reconnectAttempts (services w ! sid) = 5"
  shows "scheduleReconnect sid w =
           w\<lparr> trace := trace w @
                 [Console Error ''Max WebSocket reconnection attempts reached'',
                  Toast TError (JStr ''Connection lost. Please refresh the page.'') None] \<rparr>
       \<and> (\<forall>k. services ((scheduleReconnect sid ^^ k) w) = services w
              \<and> timers ((scheduleReconnect sid ^^ k) w) = timers w
              \<and> length (filter is_connection_lost (trace ((scheduleReconnect sid ^^ k) w))) =
                  length (filter is_connection_lost (trace w)) + k)
       \<and> (timers (connect_catch sid w) = timers w
            \<and> reconnectAttempts (services (connect_catch sid w) ! sid) = 5
            \<and> length (filter is_connection_lost (trace (connect_catch sid w))) =
                length (filter is_connection_lost (trace w)) + 1)
       \<and> (\<forall>i. i < length (sockets w) \<and> owner (sockets w ! i) = sid
              \<and> readyState (sockets w ! i) \<noteq> CLOSED \<and> pending (sockets w ! i) \<longrightarrow>
            timers (step pf (SockError i) w) = timers w
            \<and> reconnectAttempts (services (step pf (SockError i) w) ! sid) = 5
            \<and> length (filter is_connection_lost (trace (step pf (SockError i) w))) =
                length (filter is_connection_lost (trace w)) + 1)
       \<and> (\<not> isConnecting (services w ! sid) \<and> \<not> url_accepted pf (ws_url (services w ! sid) Wallet) \<longrightarrow>
            timers (step pf (CallConnect sid) w) = timers w
            \<and> reconnectAttempts (services (step pf (CallConnect sid) w) ! sid) = 5
            \<and> length (filter is_connection_lost (trace (step pf (CallConnect sid) w))) =
                length (filter is_connection_lost (trace w)) + 1)
       \<and> (\<forall>i. i < length (sockets w) \<and> owner (sockets w ! i) = sid
              \<and> readyState (sockets w ! i) \<noteq> CLOSED
              \<and> \<not> (topic (sockets w ! i) = Wallet
                     \<and> onDisconnect (callbacks (services w ! sid)) = Some Throws) \<longrightarrow>
            timers (step pf (SockClose i) w) = timers w
            \<and> reconnectAttempts (services (step pf (SockClose i) w) ! sid) = 5
            \<and> length (filter is_connection_lost (trace (step pf (SockClose i) w))) =
                length (filter is_connection_lost (trace w)) + 1)
       \<and> (\<forall>i. i < length (sockets w) \<and> owner (sockets w ! i) = sid
              \<and> readyState (sockets w ! i) \<noteq> CLOSED
              \<and> topic (sockets w ! i) = Wallet
              \<and> onDisconnect (callbacks (services w ! sid)) = Some Throws \<longrightarrow>
            timers (step pf (SockClose i) w) = timers w
            \<and> reconnectAttempts (services (step pf (SockClose i) w) ! sid) = 5
            \<and> filter is_connection_lost (trace (step pf (SockClose i) w)) =
                filter is_connection_lost (trace w))
       \<and> ((\<exists>pf' es. w = run pf' es init_world) \<longrightarrow>
            (\<forall>e. reconnectAttempts (services (step pf e w) ! sid) = 5
                 \<or> (\<exists>i. e = SockOpen i \<and> awaiting w sid Notifications i
                         \<and> reconnectAttempts (services (step pf e w) ! sid) = 0)))"
proof (intro conjI allI impI)
  have cap: "maxReconnectAttempts (services w ! sid) \<le> reconnectAttempts (services w ! sid)"
    using assms by simp
  show "scheduleReconnect sid w =
           w\<lparr> trace := trace w @
                 [Console Error ''Max WebSocket reconnection attempts reached'',
                  Toast TError (JStr ''Connection lost. Please refresh the page.'') None] \<rparr>"
    using scheduleReconnect_capped [OF cap] .
  fix k
  show "services ((scheduleReconnect sid ^^ k) w) = services w"
    and "timers ((scheduleReconnect sid ^^ k) w) = timers w"
    and "length (filter is_connection_lost (trace ((scheduleReconnect sid ^^ k) w))) =
           length (filter is_connection_lost (trace w)) + k"
    using scheduleReconnect_capped_iter [OF cap, of k] by simp_all
next
  let ?v = "upd_service sid (\<lambda>s. s\<lparr> isConnecting := False \<rparr>)
              (emit [Console Error ''Error connecting WebSockets:''] w)"
  have cap: "maxReconnectAttempts (services ?v ! sid) \<le> reconnectAttempts (services ?v ! sid)"
    using assms by simp
  have e: "connect_catch sid w = emit [ConnectSettled sid Fulfilled] (scheduleReconnect sid ?v)"
    by (simp add: connect_catch_def)
  show "timers (connect_catch sid w) = timers w"
    and "reconnectAttempts (services (connect_catch sid w) ! sid) = 5"
    and "length (filter is_connection_lost (trace (connect_catch sid w))) =
           length (filter is_connection_lost (trace w)) + 1"
    unfolding e scheduleReconnect_capped [OF cap] using assms by simp_all
next
  fix i
  assume a: "i < length (sockets w) \<and> owner (sockets w ! i) = sid
              \<and> readyState (sockets w ! i) \<noteq> CLOSED \<and> pending (sockets w ! i)"
  let ?v = "upd_service sid (\<lambda>s. s\<lparr> isConnecting := False \<rparr>)
              (emit [Console Error ''Error connecting WebSockets:'']
                 (upd_socket i (\<lambda>k. k\<lparr> pending := False \<rparr>)
                    (emit [Console Error (topic_title (topic (sockets w ! i)) @ '' WebSocket error:'')] w)))"
  have cap: "maxReconnectAttempts (services ?v ! sid) \<le> reconnectAttempts (services ?v ! sid)"
    using assms by simp
  have e: "step pf (SockError i) w = emit [ConnectSettled sid Fulfilled] (scheduleReconnect sid ?v)"
    using a by (simp add: sock_error_def Let_def connect_catch_def)
  show "timers (step pf (SockError i) w) = timers w"
    and "reconnectAttempts (services (step pf (SockError i) w) ! sid) = 5"
    and "length (filter is_connection_lost (trace (step pf (SockError i) w))) =
           length (filter is_connection_lost (trace w)) + 1"
    unfolding e scheduleReconnect_capped [OF cap] using assms by simp_all
next
  assume a: "\<not> isConnecting (services w ! sid) \<and> \<not> url_accepted pf (ws_url (services w ! sid) Wallet)"
  let ?u = "upd_service sid (\<lambda>s. s\<lparr> isConnecting := True \<rparr>) w"
  let ?v = "upd_service sid (\<lambda>s. s\<lparr> isConnecting := False \<rparr>)
              (emit [Console Error ''Error connecting WebSockets:''] ?u)"
  have nu: "\<not> url_accepted pf (ws_url (services ?u ! sid) Wallet)"
    using a assms(1) by (simp add: ws_url_def)
  have cap: "maxReconnectAttempts (services ?v ! sid) \<le> reconnectAttempts (services ?v ! sid)"
    using assms by simp
  have e: "step pf (CallConnect sid) w = emit [ConnectSettled sid Fulfilled] (scheduleReconnect sid ?v)"
    using a assms(1) connect_await_refuse [OF nu] by (simp add: connect_def connect_catch_def)
  show "timers (step pf (CallConnect sid) w) = timers w"
    and "reconnectAttempts (services (step pf (CallConnect sid) w) ! sid) = 5"
    and "length (filter is_connection_lost (trace (step pf (CallConnect sid) w))) =
           length (filter is_connection_lost (trace w)) + 1"
    unfolding e scheduleReconnect_capped [OF cap] using assms by simp_all
next
  fix i
  assume a: "i < length (sockets w) \<and> owner (sockets w ! i) = sid
              \<and> readyState (sockets w ! i) \<noteq> CLOSED
              \<and> \<not> (topic (sockets w ! i) = Wallet
                     \<and> onDisconnect (callbacks (services w ! sid)) = Some Throws)"
  let ?w2 = "emit [Console Log (topic_title (topic (sockets w ! i)) @ '' WebSocket disconnected'')]
               (upd_socket i (\<lambda>k. k\<lparr> readyState := CLOSED \<rparr>) w)"
  have cap: "maxReconnectAttempts (services ?w2 ! sid) \<le> reconnectAttempts (services ?w2 ! sid)"
    and cap': "maxReconnectAttempts (services (emit [Invoke OnDisconnect None] ?w2) ! sid)
                 \<le> reconnectAttempts (services (emit [Invoke OnDisconnect None] ?w2) ! sid)"
    using assms by simp_all
  show "timers (step pf (SockClose i) w) = timers w"
    and "reconnectAttempts (services (step pf (SockClose i) w) ! sid) = 5"
    and "length (filter is_connection_lost (trace (step pf (SockClose i) w))) =
           length (filter is_connection_lost (trace w)) + 1"
    using a assms scheduleReconnect_capped [OF cap] scheduleReconnect_capped [OF cap']
    by (auto simp: sock_close_def Let_def split: option.splits outcome.splits)
next
  fix i
  assume a: "i < length (sockets w) \<and> owner (sockets w ! i) = sid
              \<and> readyState (sockets w ! i) \<noteq> CLOSED
              \<and> topic (sockets w ! i) = Wallet
              \<and> onDisconnect (callbacks (services w ! sid)) = Some Throws"
  then have e: "sock_close i w =
           emit [Console Log ''Wallet WebSocket disconnected'', Invoke OnDisconnect None, Uncaught]
             (upd_socket i (\<lambda>k. k\<lparr> readyState := CLOSED \<rparr>) w)"
    by (intro sock_close_throwing) simp_all
  show "timers (step pf (SockClose i) w) = timers w"
    and "reconnectAttempts (services (step pf (SockClose i) w) ! sid) = 5"
    and "filter is_connection_lost (trace (step pf (SockClose i) w)) =
           filter is_connection_lost (trace w)"
    using a assms(3) e by simp_all
next
  fix e
  assume "\<exists>pf' es. w = run pf' es init_world"
  then have wf: "wf_world w" using wf_run [OF wf_init] by auto
  have l: "sid < length (services (step pf e w))"
    using assms(1) step_services_length [of w pf e] by simp
  have "service_ok (services (step pf e w) ! sid)"
    using wf_step [OF wf, of pf e] l by (simp add: wf_world_def)
  then have "reconnectAttempts (services (step pf e w) ! sid) \<le> 5"
    by (simp add: service_ok_def)
  then show "reconnectAttempts (services (step pf e w) ! sid) = 5
         \<or> (\<exists>i. e = SockOpen i \<and> awaiting w sid Notifications i
                 \<and> reconnectAttempts (services (step pf e w) ! sid) = 0)"
    using step_attempts [OF assms(1), of pf e] assms(3) by auto
qed

theorem connection_lost_once_counterexample:
  "reconnectAttempts (services exhausted_world ! 0) = 5
   \<and> length (filter is_connection_lost (trace exhausted_world)) = 3
   \<and> timers exhausted_world = [(0, 8000), (0, 16000)]
   \<and> reconnectAttempts (services recovered_world ! 0) = 1
   \<and> timers recovered_world = [(0, 16000), (0, 1000)]"
  using recovered_world_eq by (simp add: exhausted_world_eq)

theorem connection_lost_per_failure_witness:
  "length (filter is_connection_lost (trace ((scheduleReconnect 0 ^^ 2) exhausted_world))) = 3 + 2
   \<and> timers ((scheduleReconnect 0 ^^ 2) exhausted_world) = [(0, 8000), (0, 16000)]
   \<and> services ((scheduleReconnect 0 ^^ 2) exhausted_world) = services exhausted_world
   \<and> reconnectAttempts (services (step plain_platform (TimerFire 0) exhausted_world) ! 0) = 5"
proof -
  have h: "0 < length (services exhausted_world)"
      "maxReconnectAttempts (services exhausted_world ! 0) = 5"
      "reconnectAttempts (services exhausted_world ! 0) = 5"
    and t: "timers exhausted_world = [(0, 8000), (0, 16000)]"
      "length (filter is_connection_lost (trace exhausted_world)) = 3"
    by (simp_all add: exhausted_world_eq)
  have wf: "\<exists>pf' es. exhausted_world = run pf' es init_world"
    unfolding exhausted_world_def by blast
  note T = connection_lost_per_failure [OF h, of plain_platform]
  have "services ((scheduleReconnect 0 ^^ 2) exhausted_world) = services exhausted_world
      \<and> timers ((scheduleReconnect 0 ^^ 2) exhausted_world) = timers exhausted_world
      \<and> length (filter is_connection_lost (trace ((scheduleReconnect 0 ^^ 2) exhausted_world))) =
          length (filter is_connection_lost (trace exhausted_world)) + 2"
    using T by blast
  moreover have "reconnectAttempts (services (step plain_platform (TimerFire 0) exhausted_world) ! 0) = 5"
    using T wf by blast
  ultimately show ?thesis using t by (simp only: simp_thms)
qed

subsection \<open>disconnect and the pending timers\<close>

lemma set_socket_field_same:
  assumes "socket_field t s = None"
  shows "set_socket_field t None s = s"
  using assms by (cases t) simp_all

lemma close_field_service:
  assumes "sid < length (services w)"
  shows "services (close_field sid t w) ! sid = set_socket_field t None (services w ! sid)"
  using assms
  by (cases "socket_field t (services w ! sid)")
     (simp_all add: close_field_def set_socket_field_same)

lemma close_field_sockets_length [simp]:
  "length (sockets (close_field sid t w)) = length (sockets w)"
  by (simp add: close_field_def split: option.splits)

lemma disconnect_service:
  assumes "sid < length (services w)"
  shows "services (disconnect sid w) ! sid =
           (services w ! sid)\<lparr> walletSocket := None, botsSocket := None, notificationsSocket := None \<rparr>"
proof -
  let ?a = "close_field sid Wallet w"
  let ?b = "close_field sid Bots ?a"
  have la: "sid < length (services ?a)" and lb: "sid < length (services ?b)"
    using assms by simp_all
  show ?thesis
    using close_field_service [OF assms, of Wallet] close_field_service [OF la, of Bots]
      close_field_service [OF lb, of Notifications]
    by (simp add: disconnect_def)
qed

lemma disconnect_sockets_length [simp]:
  "length (sockets (disconnect sid w)) = length (sockets w)"
  by (simp add: disconnect_def)

text \<open>
  C9. \<open>disconnect()\<close> leaves the pending timers as they are (as do the module-level
  \<open>disconnectWebSocket\<close> and \<open>initializeWebSocket\<close>, which call it). A timer of the
  instance that was pending before the call still fires after it: it calls \<open>connect()\<close> on
  the state \<open>disconnect()\<close> left, in which the three socket fields are null, and unless a
  connect is in flight (or the platform refuses the URL) that call opens a new wallet
  socket and sets the connecting flag: the reconnect is executed again.
\<close>

theorem pending_reconnect_survives_disconnect:
  fixes w :: "'n world"
  assumes "j < length (timers w)" and "timers w ! j = (sid, d)" and "sid < length (services w)"
  shows "timers (disconnect sid w) = timers w
       \<and> timers (disconnectWebSocket w) = timers w
       \<and> walletSocket (services (disconnect sid w) ! sid) = None
       \<and> botsSocket (services (disconnect sid w) ! sid) = None
       \<and> notificationsSocket (services (disconnect sid w) ! sid) = None
       \<and> step pf (TimerFire j) (disconnect sid w) =
           connect pf sid
             ((disconnect sid w)\<lparr> timers := take j (timers w) @ drop (Suc j) (timers w) \<rparr>)
       \<and> (\<not> isConnecting (services w ! sid) \<and> url_accepted pf (ws_url (services w ! sid) Wallet) \<longrightarrow>
            (let w' = step pf (TimerFire j) (disconnect sid w)
             in walletSocket (services w' ! sid) = Some (length (sockets w))
                \<and> awaiting w' sid Wallet (length (sockets w))
                \<and> isConnecting (services w' ! sid)))"
proof (intro conjI impI)
  show "timers (disconnect sid w) = timers w" by simp
  show "timers (disconnectWebSocket w) = timers w"
    by (simp add: disconnectWebSocket_def split: option.splits)
  show "walletSocket (services (disconnect sid w) ! sid) = None"
    and "botsSocket (services (disconnect sid w) ! sid) = None"
    and "notificationsSocket (services (disconnect sid w) ! sid) = None"
    using disconnect_service [OF assms(3)] by simp_all
  show e: "step pf (TimerFire j) (disconnect sid w) =
           connect pf sid
             ((disconnect sid w)\<lparr> timers := take j (timers w) @ drop (Suc j) (timers w) \<rparr>)"
    using assms(1,2) by (simp add: timer_fire_def)
  assume a: "\<not> isConnecting (services w ! sid) \<and> url_accepted pf (ws_url (services w ! sid) Wallet)"
  let ?v = "(disconnect sid w)\<lparr> timers := take j (timers w) @ drop (Suc j) (timers w) \<rparr>"
  have sv: "services ?v ! sid =
              (services w ! sid)\<lparr> walletSocket := None, botsSocket := None, notificationsSocket := None \<rparr>"
    using disconnect_service [OF assms(3)] by simp
  have lv: "sid < length (services ?v)" using assms(3) by simp
  have idle: "\<not> isConnecting (services ?v ! sid)" using a sv by simp
  have url: "url_accepted pf (ws_url (services ?v ! sid) Wallet)"
    using a sv by (simp add: ws_url_def)
  note c = connect_start [OF lv idle url]
  have len: "length (sockets ?v) = length (sockets w)" by simp
  show "let w' = step pf (TimerFire j) (disconnect sid w)
        in walletSocket (services w' ! sid) = Some (length (sockets w))
           \<and> awaiting w' sid Wallet (length (sockets w))
           \<and> isConnecting (services w' ! sid)"
    unfolding Let_def e using c(1,6,8) len by simp
qed

theorem pending_reconnect_survives_disconnect_witness:
  "timers (disconnect 0 closed_wallet_world) = [(0, 1000)]
   \<and> walletSocket (services (step plain_platform (TimerFire 0) (disconnect 0 closed_wallet_world)) ! 0)
       = Some 3
   \<and> awaiting (step plain_platform (TimerFire 0) (disconnect 0 closed_wallet_world)) 0 Wallet 3"
proof -
  have h: "0 < length (timers closed_wallet_world)" "timers closed_wallet_world ! 0 = (0, 1000)"
      "0 < length (services closed_wallet_world)"
    and t: "timers closed_wallet_world = [(0, 1000)]" "length (sockets closed_wallet_world) = 3"
    by (simp_all add: closed_wallet_world_eq)
  have a: "\<not> isConnecting (services closed_wallet_world ! 0)
           \<and> url_accepted plain_platform (ws_url (services closed_wallet_world ! 0) Wallet)"
    by (simp add: closed_wallet_world_eq plain_platform_def test_platform_def)
  note T = pending_reconnect_survives_disconnect [OF h, of plain_platform, unfolded Let_def t(2)]
  have "timers (disconnect 0 closed_wallet_world) = timers closed_wallet_world"
    and "walletSocket (services (step plain_platform (TimerFire 0) (disconnect 0 closed_wallet_world)) ! 0)
           = Some 3"
    and "awaiting (step plain_platform (TimerFire 0) (disconnect 0 closed_wallet_world)) 0 Wallet 3"
    using T a by blast+
  then show ?thesis using t(1) by (simp only: simp_thms)
qed

subsection \<open>Replacing the singleton\<close>

lemma replaced_world_eq:
  "replaced_world =
     \<lparr> services =
         [\<lparr> walletSocket = None, botsSocket = None, notificationsSocket = None,
            reconnectAttempts = 0, maxReconnectAttempts = 5, reconnectDelay = 1000,
            callbacks = no_callbacks, isConnecting = False,
            baseUrl = ''http://localhost:8000'', authToken = ''tok'', userId = ''u1'' \<rparr>,
          \<lparr> walletSocket = Some 3, botsSocket = Some 4, notificationsSocket = Some 5,
            reconnectAttempts = 0, maxReconnectAttempts = 5, reconnectDelay = 1000,
            callbacks = no_callbacks, isConnecting = False,
            baseUrl = ''http://localhost:8000'', authToken = ''tok'', userId = ''u1'' \<rparr>],
       sockets =
         [\<lparr> owner = 0, topic = Wallet, url = ''ws://localhost:8000/ws/wallet/u1?token=tok'',
            readyState = CLOSING, pending = False, sent = [] \<rparr>,
          \<lparr> owner = 0, topic = Bots, url = ''ws://localhost:8000/ws/bots/u1?token=tok'',
            readyState = CLOSING, pending = False, sent = [] \<rparr>,
          \<lparr> owner = 0, topic = Notifications,
            url = ''ws://localhost:8000/ws/notifications/u1?token=tok'',
            readyState = CLOSING, pending = False, sent = [] \<rparr>,
          \<lparr> owner = 1, topic = Wallet, url = ''ws://localhost:8000/ws/wallet/u1?token=tok'',
            readyState = OPEN, pending = False, sent = [] \<rparr>,
          \<lparr> owner = 1, topic = Bots, url = ''ws://localhost:8000/ws/bots/u1?token=tok'',
            readyState = OPEN, pending = False, sent = [] \<rparr>,
          \<lparr> owner = 1, topic = Notifications,
            url = ''ws://localhost:8000/ws/notifications/u1?token=tok'',
            readyState = OPEN, pending = False, sent = [] \<rparr>],
       timers = [], websocketService = Some 1,
       trace =
         [Console Log ''Wallet WebSocket connected'',
          Console Log ''Bots WebSocket connected'',
          Console Log ''Notifications WebSocket connected'',
          Console Log ''All WebSocket connections established'',
          ConnectSettled 0 Fulfilled,
          Console Log ''All WebSocket connections closed'',
          Console Log ''Wallet WebSocket connected'',
          Console Log ''Bots WebSocket connected'',
          Console Log ''Notifications WebSocket connected'',
          Console Log ''All WebSocket connections established'',
          ConnectSettled 1 Fulfilled] \<rparr>"
  by (simp add: replaced_world_def plain_platform_def eval_defs)

lemma revived_world_eq:
  "revived_world =
     \<lparr> services =
         [\<lparr> walletSocket = Some 6, botsSocket = Some 7, notificationsSocket = None,
            reconnectAttempts = 1, maxReconnectAttempts = 5, reconnectDelay = 1000,
            callbacks = no_callbacks, isConnecting = True,
            baseUrl = ''http://localhost:8000'', authToken = ''tok'', userId = ''u1'' \<rparr>,
          \<lparr> walletSocket = Some 3, botsSocket = Some 4, notificationsSocket = Some 5,
            reconnectAttempts = 0, maxReconnectAttempts = 5, reconnectDelay = 1000,
            callbacks = no_callbacks, isConnecting = False,
            baseUrl = ''http://localhost:8000'', authToken = ''tok'', userId = ''u1'' \<rparr>],
       sockets =
         [\<lparr> owner = 0, topic = Wallet, url = ''ws://localhost:8000/ws/wallet/u1?token=tok'',
            readyState = CLOSED, pending = False, sent = [] \<rparr>,
          \<lparr> owner = 0, topic = Bots, url = ''ws://localhost:8000/ws/bots/u1?token=tok'',
            readyState = CLOSING, pending = False, sent = [] \<rparr>,
          \<lparr> owner = 0, topic = Notifications,
            url = ''ws://localhost:8000/ws/notifications/u1?token=tok'',
            readyState = CLOSING, pending = False, sent = [] \<rparr>,
          \<lparr> owner = 1, topic = Wallet, url = ''ws://localhost:8000/ws/wallet/u1?token=tok'',
            readyState = OPEN, pending = False, sent = [] \<rparr>,
          \<lparr> owner = 1, topic = Bots, url = ''ws://localhost:8000/ws/bots/u1?token=tok'',
            readyState = OPEN, pending = False, sent = [] \<rparr>,
          \<lparr> owner = 1, topic = Notifications,
            url = ''ws://localhost:8000/ws/notifications/u1?token=tok'',
            readyState = OPEN, pending = False, sent = [] \<rparr>,
          \<lparr> owner = 0, topic = Wallet, url = ''ws://localhost:8000/ws/wallet/u1?token=tok'',
            readyState = OPEN, pending = False, sent = [] \<rparr>,
          \<lparr> owner = 0, topic = Bots, url = ''ws://localhost:8000/ws/bots/u1?token=tok'',
            readyState = CONNECTING, pending = True, sent = [] \<rparr>],
       timers = [], websocketService = Some 1,
       trace =
         [Console Log ''Wallet WebSocket connected'',
          Console Log ''Bots WebSocket connected'',
          Console Log ''Notifications WebSocket connected'',
          Console Log ''All WebSocket connections established'',
          ConnectSettled 0 Fulfilled,
          Console Log ''All WebSocket connections closed'',
          Console Log ''Wallet WebSocket connected'',
          Console Log ''Bots WebSocket connected'',
          Console Log ''Notifications WebSocket connected'',
          Console Log ''All WebSocket connections established'',
          ConnectSettled 1 Fulfilled,
          Console Log ''Wallet WebSocket disconnected'',
          Console Log ''Scheduling WebSocket reconnect in 1000ms (attempt 1)'',
          Console Log ''Wallet WebSocket connected''] \<rparr>"
  by (simp add: revived_world_def replaced_world_eq plain_platform_def eval_defs)

text \<open>
  What \<open>initializeWebSocket\<close> does at the moment of the call: the previous instance is
  disconnected (its three fields are null, it is not connected) before the new instance,
  which has no socket yet, is appended and installed as the singleton.
\<close>

lemma initializeWebSocket_teardown:
  assumes "websocketService w = Some old" and "old < length (services w)"
  shows "websocketService (initializeWebSocket b a u cbs w) = Some (length (services w))"
    and "services (initializeWebSocket b a u cbs w) ! old =
           (services w ! old)\<lparr> walletSocket := None, botsSocket := None, notificationsSocket := None \<rparr>"
    and "services (initializeWebSocket b a u cbs w) ! length (services w) =
           (new_service b a u)\<lparr> callbacks := cbs \<rparr>"
    and "\<not> isConnected (initializeWebSocket b a u cbs w) old"
    and "\<not> isConnected (initializeWebSocket b a u cbs w) (length (services w))"
    and "timers (initializeWebSocket b a u cbs w) = timers w"
proof -
  let ?d = "disconnect old w"
  let ?w' = "initializeWebSocket b a u cbs w"
  have e: "?w' = setCallbacks (length (services w))
                  cbs (?d\<lparr> services := services ?d @ [new_service b a u],
                         websocketService := Some (length (services w)) \<rparr>)"
    using assms(1) by (simp add: initializeWebSocket_def Let_def)
  have sv: "services ?w' = (services ?d @ [new_service b a u])
              [length (services w) := (new_service b a u)\<lparr> callbacks := cbs \<rparr>]"
    unfolding e by (simp add: setCallbacks_def nth_append)
  show "websocketService ?w' = Some (length (services w))"
    unfolding e by (simp add: setCallbacks_def)
  show o: "services ?w' ! old =
           (services w ! old)\<lparr> walletSocket := None, botsSocket := None, notificationsSocket := None \<rparr>"
    unfolding sv using assms(2) disconnect_service [OF assms(2)] by (simp add: nth_append)
  show n: "services ?w' ! length (services w) = (new_service b a u)\<lparr> callbacks := cbs \<rparr>"
    unfolding sv by simp
  show "\<not> isConnected ?w' old"
    using o by (simp add: isConnected_def socket_open_def)
  show "\<not> isConnected ?w' (length (services w))"
    using n by (simp add: isConnected_def socket_open_def new_service_def)
  show "timers ?w' = timers w"
    unfolding e by (simp add: setCallbacks_def)
qed

text \<open>
  C8. At the moment of the second \<open>initializeWebSocket\<close> the first instance is torn down
  and only the new instance is installed (\<open>replaced_world\<close>). The handlers of the first
  instance's sockets stay installed, though: when the close event of its wallet socket
  arrives, that instance schedules a reconnect, the timer fires, and it opens a new
  wallet socket. In \<open>revived_world\<close> the singleton is the second instance, and the first
  and the second instance are both connected.
\<close>

theorem replaced_instance_reconnects:
  "websocketService replaced_world = Some 1
   \<and> \<not> isConnected replaced_world 0 \<and> isConnected replaced_world 1
   \<and> websocketService revived_world = Some 1
   \<and> isConnected revived_world 0 \<and> isConnected revived_world 1
   \<and> walletSocket (services revived_world ! 0) = Some 6
   \<and> readyState (sockets revived_world ! 6) = OPEN"
  by (simp add: replaced_world_eq revived_world_eq isConnected_def socket_open_def)


end
